theory Spec2Isabelle
  imports Main
begin

section \<open>The host page, as ImageResize.js sees it\<close>

text \<open>
  The controller of \<^verbatim>\<open>src/ImageResize.js\<close> is a class whose methods
  mutate its own fields (\<^verbatim>\<open>img\<close>, \<^verbatim>\<open>overlay\<close>, \<^verbatim>\<open>modules\<close>) and
  the page around it: the children, attributes and listeners of the editor's container
  (\<^verbatim>\<open>quill.root.parentNode\<close>), the listeners of \<^verbatim>\<open>window\<close> and of the
  editor root, two style declarations, the host document and the clipboard. All of this
  is one record that every method takes and returns. A JavaScript exception is a value:
  a method that can throw returns \<open>Raised e s\<close>, where \<open>s\<close> is the state as the
  statements before the throw have left it.
\<close>

datatype error = TypeError string | NotFoundError | RangeError

text \<open>A DOM node that an event can carry as its target. \<open>tagName\<close> is \<open>None\<close> for a
  node without one, and otherwise the UTF-16 code units of the name;
  \<open>in_root\<close> is the answer of \<^verbatim>\<open>quill.root.contains(node)\<close>.\<close>

record node =
  nid :: nat
  tagName :: "nat list option"
  in_root :: bool

text \<open>Bounding rectangles and scroll offsets are JavaScript numbers. The type of
  numbers is a parameter \<open>'n\<close> with a subtraction, an addition and a \<open>1\<close>, so
  that nothing is assumed of their arithmetic; \<open>number_text\<close> is the text the
  language gives for a number inside a template literal. What is proved for every
  \<open>'n\<close> holds for the floating-point numbers of the language.\<close>

record 'n rect =
  rect_left :: 'n
  rect_top :: 'n
  rect_width :: 'n
  rect_height :: 'n

record 'n layout =
  imgRect :: "nat \<Rightarrow> 'n rect"
  containerRect :: "'n rect"
  scrollLeft :: 'n
  scrollTop :: 'n
  number_text :: "'n \<Rightarrow> string"

datatype handler =
  HandleClickInsideQuillInstance | HandleClickOutsideQuillInstance | CheckImage

text \<open>A registered listener: event type, callback, capture flag.\<close>

type_synonym listener = "string \<times> handler \<times> bool"

text \<open>A child of the container: an element of the host page, or a \<^verbatim>\<open>div\<close> made by
  \<^verbatim>\<open>showOverlay\<close>.\<close>

datatype child = HostChild nat | OverlayDiv nat

record overlay_el =
  oid :: nat
  style :: "(string \<times> string) list"

datatype module_class = DisplaySize | Toolbar | Resize | Custom nat

text \<open>An entry of \<^verbatim>\<open>options.modules\<close>: a name, or a constructor given directly.
  A constructor given directly is taken to be a module class, as the three known ones
  are: \<^verbatim>\<open>new\<close> on it gives a new instance with the methods \<^verbatim>\<open>onCreate\<close>,
  \<^verbatim>\<open>onUpdate\<close> and \<^verbatim>\<open>onDestroy\<close>.\<close>

datatype module_spec = Name string | Ctor nat

record module_inst =
  mid :: nat
  mclass :: module_class

text \<open>What \<^verbatim>\<open>this.modules\<close> can hold: an instance of a module class, or the
  controller itself. The latter comes from the entry \<^verbatim>\<open>"constructor"\<close>, which
  \<^verbatim>\<open>knownModules\<close> inherits from \<^verbatim>\<open>Object.prototype\<close>: it is \<^verbatim>\<open>Object\<close>, and
  \<^verbatim>\<open>new Object(this)\<close> returns its argument.\<close>

datatype live_module = Module module_inst | Controller

text \<open>The calls made into module code, in order. The module classes are collaborators
  outside this file; their methods are taken to return normally and to leave the
  controller's fields alone.\<close>

datatype module_call = Constructed nat | OnCreate nat | OnUpdate nat | OnDestroy nat

record state =
  img :: "node option"
  overlay :: "overlay_el option"
  modules :: "live_module list"
  moduleClasses :: "module_spec list"
  overlayStyles :: "(string \<times> string) list"
  children :: "child list"
  parent_position :: string
  parent_tabIndex :: "string option"
  parent_focused :: bool
  parent_listeners :: "listener list"
  root_listeners :: "listener list"
  window_listeners :: "listener list"
  root_style :: "(string \<times> string) list"
  html_style :: "(string \<times> string) list"
  quill_selection :: "(nat \<times> nat) option"
  doc :: "nat list"
  trace :: "module_call list"
  alerts :: "string list"
  prevented :: nat
  unhandled_rejections :: nat
  next_el :: nat
  next_mod :: nat
  stack_spare :: nat

datatype res = Done state | Raised error state

fun state_of :: "res \<Rightarrow> state" where
  "state_of (Done s) = s"
| "state_of (Raised e s) = s"

fun completed :: "res \<Rightarrow> bool" where
  "completed (Done s) = True"
| "completed (Raised e s) = False"

text \<open>Sequencing: a throw skips the rest and keeps the state reached.\<close>

fun andThen :: "res \<Rightarrow> (state \<Rightarrow> res) \<Rightarrow> res" where
  "andThen (Done s) f = f s"
| "andThen (Raised e s) f = Raised e s"

subsection \<open>DOM and language primitives\<close>

text \<open>\<^verbatim>\<open>addEventListener\<close> ignores a listener that is already registered with the same
  type, callback and capture flag; \<^verbatim>\<open>removeEventListener\<close> removes the matching
  one, if any.\<close>

definition addEventListener :: "listener \<Rightarrow> listener list \<Rightarrow> listener list" where
  "addEventListener l ls = (if l \<in> set ls then ls else ls @ [l])"

definition removeEventListener :: "listener \<Rightarrow> listener list \<Rightarrow> listener list" where
  "removeEventListener l ls = filter (\<lambda>x. x \<noteq> l) ls"

text \<open>Property assignment on an object used as a property bag, and \<^verbatim>\<open>Object.assign\<close>.\<close>

fun set_prop :: "string \<Rightarrow> string \<Rightarrow> (string \<times> string) list \<Rightarrow> (string \<times> string) list" where
  "set_prop k v [] = [(k, v)]"
| "set_prop k v ((k', v') # ps) =
     (if k' = k then (k, v) # ps else (k', v') # set_prop k v ps)"

fun assign :: "(string \<times> string) list \<Rightarrow> (string \<times> string) list \<Rightarrow> (string \<times> string) list" where
  "assign target [] = target"
| "assign target ((k, v) # src) = assign (set_prop k v target) src"

text \<open>\<^verbatim>\<open>name.toUpperCase() === "IMG"\<close> on the code units of a name. The upper-casing
  of the language takes \<open>i\<close> and the dotless \<open>i\<close> (U+0131) to \<open>I\<close>, \<open>m\<close> to
  \<open>M\<close> and \<open>g\<close> to \<open>G\<close>, and no other character or sequence of characters to
  one of these three letters.\<close>

definition upper_is_IMG :: "nat list \<Rightarrow> bool" where
  "upper_is_IMG name =
     (case name of
        [a, b, c] \<Rightarrow> a \<in> {73, 105, 305} \<and> b \<in> {77, 109} \<and> c \<in> {71, 103}
      | _ \<Rightarrow> False)"

definition px :: "'n layout \<Rightarrow> 'n \<Rightarrow> string" where
  "px L v = number_text L v @ ''px''"

section \<open>The controller\<close>

subsection \<open>Construction\<close>

text \<open>What the constructor finds: the container's children, its inline
  \<^verbatim>\<open>position\<close>, the image nodes the host document holds, and how many nested
  calls the engine allows a handler beyond the first. The page carries no listener,
  overlay or style of this controller before it is constructed.\<close>

record host =
  host_children :: "nat list"
  host_position :: string
  host_doc :: "nat list"
  host_stack :: nat

text \<open>\<^verbatim>\<open>defaultsDeep({}, options, DefaultOptions)\<close> is computed outside this file; its
  result is the parameter \<open>merged\<close>. \<open>opt_modules\<close> is \<^verbatim>\<open>options.modules\<close>,
  \<open>None\<close> when the caller gave none: the constructor puts the caller's array back
  over the merged one.\<close>

record options =
  merged_modules :: "module_spec list"
  merged_overlayStyles :: "(string \<times> string) list"

definition constructor :: "host \<Rightarrow> module_spec list option \<Rightarrow> options \<Rightarrow> state" where
  "constructor h opt_modules merged =
     \<lparr> img = None,
       overlay = None,
       modules = [],
       moduleClasses =
         (case opt_modules of Some ms \<Rightarrow> ms | None \<Rightarrow> merged_modules merged),
       overlayStyles = merged_overlayStyles merged,
       children = map HostChild (host_children h),
       parent_position =
         (if host_position h = [] then ''relative'' else host_position h),
       parent_tabIndex = None,
       parent_focused = False,
       parent_listeners = [],
       root_listeners =
         addEventListener (''click'', HandleClickInsideQuillInstance, False) [],
       window_listeners = [],
       root_style = [],
       html_style = [],
       quill_selection = None,
       doc = host_doc h,
       trace = [],
       alerts = [],
       prevented = 0,
       unhandled_rejections = 0,
       next_el = 0,
       next_mod = 0,
       stack_spare = host_stack h \<rparr>"

subsection \<open>Modules\<close>

text \<open>\<^verbatim>\<open>knownModules[ModuleClass] || ModuleClass\<close>: a known name gives its class and
  a constructor is taken as it is. The lookup also finds what \<^verbatim>\<open>knownModules\<close>
  inherits: \<^verbatim>\<open>"constructor"\<close> gives \<^verbatim>\<open>Object\<close>; the other inherited names give
  methods or the prototype object, which \<^verbatim>\<open>new\<close> refuses like any other string.\<close>

datatype ctor = ModuleCtor module_class | ObjectCtor

fun resolve :: "module_spec \<Rightarrow> ctor option" where
  "resolve (Name n) =
     (if n = ''DisplaySize'' then Some (ModuleCtor DisplaySize)
      else if n = ''Toolbar'' then Some (ModuleCtor Toolbar)
      else if n = ''Resize'' then Some (ModuleCtor Resize)
      else if n = ''constructor'' then Some ObjectCtor
      else None)"
| "resolve (Ctor c) = Some (ModuleCtor (Custom c))"

text \<open>\<^verbatim>\<open>this.modules.forEach(module => module.onDestroy())\<close>, and the same loop for
  \<^verbatim>\<open>onCreate\<close>. The controller has neither method: the call on it throws and ends
  the loop.\<close>

fun destroy_each :: "live_module list \<Rightarrow> state \<Rightarrow> res" where
  "destroy_each [] s = Done s"
| "destroy_each (Module m # ms) s =
     destroy_each ms (s\<lparr> trace := trace s @ [OnDestroy (mid m)] \<rparr>)"
| "destroy_each (Controller # ms) s =
     Raised (TypeError ''module.onDestroy is not a function'') s"

fun create_each :: "live_module list \<Rightarrow> state \<Rightarrow> res" where
  "create_each [] s = Done s"
| "create_each (Module m # ms) s =
     create_each ms (s\<lparr> trace := trace s @ [OnCreate (mid m)] \<rparr>)"
| "create_each (Controller # ms) s =
     Raised (TypeError ''module.onCreate is not a function'') s"

definition removeModules :: "state \<Rightarrow> res" where
  "removeModules s =
     andThen (destroy_each (modules s) s) (\<lambda>s1. Done (s1\<lparr> modules := [] \<rparr>))"

text \<open>\<^verbatim>\<open>this.moduleClasses.map(C => new (...)(this))\<close>: the constructors run in order;
  the first entry that is not a constructor throws, after the earlier ones have run.
  \<^verbatim>\<open>new Object(this)\<close> runs no module code and gives the controller.\<close>

fun construct_all :: "module_spec list \<Rightarrow> state \<Rightarrow> (error + live_module list) \<times> state" where
  "construct_all [] s = (Inr [], s)"
| "construct_all (c # cs) s =
     (case resolve c of
        None \<Rightarrow> (Inl (TypeError ''not a constructor''), s)
      | Some ObjectCtor \<Rightarrow>
          (case construct_all cs s of
             (Inl e, s2) \<Rightarrow> (Inl e, s2)
           | (Inr ms, s2) \<Rightarrow> (Inr (Controller # ms), s2))
      | Some (ModuleCtor k) \<Rightarrow>
          (let m = \<lparr> mid = next_mod s, mclass = k \<rparr>;
               s1 = s\<lparr> next_mod := Suc (next_mod s),
                       trace := trace s @ [Constructed (mid m)] \<rparr>
           in case construct_all cs s1 of
                (Inl e, s2) \<Rightarrow> (Inl e, s2)
              | (Inr ms, s2) \<Rightarrow> (Inr (Module m # ms), s2)))"

subsection \<open>Overlay\<close>

definition repositionElements :: "'n::{minus,plus,one} layout \<Rightarrow> state \<Rightarrow> state" where
  "repositionElements L s =
     (case overlay s of
        None \<Rightarrow> s
      | Some ov \<Rightarrow>
          (case img s of
             None \<Rightarrow> s
           | Some i \<Rightarrow>
               (let imgR = imgRect L (nid i);
                    containerR = containerRect L
                in s\<lparr> overlay := Some (ov\<lparr> style :=
                     assign (style ov)
                       [(''left'', px L (rect_left imgR - rect_left containerR - 1 + scrollLeft L)),
                        (''top'', px L (rect_top imgR - rect_top containerR + scrollTop L)),
                        (''width'', px L (rect_width imgR)),
                        (''height'', px L (rect_height imgR))] \<rparr>) \<rparr>)))"

text \<open>\<^verbatim>\<open>onUpdate\<close> repositions and calls \<^verbatim>\<open>onUpdate\<close> on every entry of
  \<^verbatim>\<open>this.modules\<close>. On the controller that call is \<^verbatim>\<open>onUpdate\<close> itself, nested:
  it repeats until the engine has no stack left and throws a \<^verbatim>\<open>RangeError\<close>, which
  ends every loop on the way out. \<open>update_each self\<close> is the loop, with \<open>self\<close> the
  nested call; \<open>onUpdate_nested d\<close> is a call with \<open>d\<close> frames left.\<close>

fun update_each :: "(state \<Rightarrow> res) \<Rightarrow> live_module list \<Rightarrow> state \<Rightarrow> res" where
  "update_each self [] s = Done s"
| "update_each self (Module m # ms) s =
     update_each self ms (s\<lparr> trace := trace s @ [OnUpdate (mid m)] \<rparr>)"
| "update_each self (Controller # ms) s = andThen (self s) (update_each self ms)"

primrec onUpdate_nested :: "nat \<Rightarrow> 'n::{minus,plus,one} layout \<Rightarrow> state \<Rightarrow> res" where
  "onUpdate_nested 0 L s = Raised RangeError s"
| "onUpdate_nested (Suc d) L s =
     (let s1 = repositionElements L s
      in update_each (onUpdate_nested d L) (modules s1) s1)"

definition onUpdate :: "'n::{minus,plus,one} layout \<Rightarrow> state \<Rightarrow> res" where
  "onUpdate L s = onUpdate_nested (Suc (stack_spare s)) L s"

definition initializeModules :: "'n::{minus,plus,one} layout \<Rightarrow> state \<Rightarrow> res" where
  "initializeModules L s =
     andThen (removeModules s)
       (\<lambda>s1. case construct_all (moduleClasses s1) s1 of
               (Inl e, s2) \<Rightarrow> Raised e s2
             | (Inr ms, s2) \<Rightarrow>
                 (let s3 = s2\<lparr> modules := ms \<rparr>
                  in andThen (create_each (modules s3) s3) (onUpdate L)))"

definition setUserSelect :: "string \<Rightarrow> state \<Rightarrow> state" where
  "setUserSelect v s =
     fold (\<lambda>prop t. t\<lparr> root_style := set_prop prop v (root_style t),
                        html_style := set_prop prop v (html_style t) \<rparr>)
       [''userSelect'', ''mozUserSelect'', ''webkitUserSelect'', ''msUserSelect''] s"

text \<open>\<^verbatim>\<open>removeChild\<close> throws a \<^verbatim>\<open>NotFoundError\<close> when the node is not a child of
  the container.\<close>

definition hideOverlay :: "state \<Rightarrow> res" where
  "hideOverlay s =
     (case overlay s of
        None \<Rightarrow> Done s
      | Some ov \<Rightarrow>
          if OverlayDiv (oid ov) \<notin> set (children s) then Raised NotFoundError s
          else Done (setUserSelect []
            (s\<lparr> children := remove1 (OverlayDiv (oid ov)) (children s),
                parent_listeners :=
                  removeEventListener (''keyup'', CheckImage, False) (parent_listeners s),
                overlay := None \<rparr>)))"

text \<open>\<^verbatim>\<open>showOverlay\<close>, statement by statement. \<^verbatim>\<open>document.createElement\<close> gives a
  new element each time: \<open>next_el\<close> numbers them.\<close>

definition showOverlay :: "'n::{minus,plus,one} layout \<Rightarrow> state \<Rightarrow> res" where
  "showOverlay L s =
     andThen (case overlay s of None \<Rightarrow> Done s | Some ov \<Rightarrow> hideOverlay s)
       (\<lambda>s1.
          let s2 = s1\<lparr> quill_selection := None \<rparr>;
              s3 = setUserSelect ''none'' s2;
              s4 = s3\<lparr> window_listeners :=
                     addEventListener (''click'', HandleClickOutsideQuillInstance, True)
                       (window_listeners s3) \<rparr>;
              ov = \<lparr> oid = next_el s4, style = assign [] (overlayStyles s4) \<rparr>;
              s5 = s4\<lparr> overlay := Some ov, next_el := Suc (next_el s4) \<rparr>;
              s6 = s5\<lparr> parent_tabIndex := Some ''0'' \<rparr>;
              s7 = s6\<lparr> parent_listeners :=
                     addEventListener (''keyup'', CheckImage, False) (parent_listeners s6) \<rparr>;
              s8 = s7\<lparr> parent_focused := True \<rparr>;
              s9 = s8\<lparr> children := children s8 @ [OverlayDiv (oid ov)] \<rparr>
          in Done (repositionElements L s9))"

definition hide :: "state \<Rightarrow> res" where
  "hide s =
     andThen (hideOverlay s)
       (\<lambda>s1. andThen (removeModules s1) (\<lambda>s2. Done (s2\<lparr> img := None \<rparr>)))"

definition show_img :: "'n::{minus,plus,one} layout \<Rightarrow> node \<Rightarrow> state \<Rightarrow> res" where
  "show_img L i s =
     andThen (showOverlay L (s\<lparr> img := Some i \<rparr>)) (initializeModules L)"

subsection \<open>Click handlers\<close>

text \<open>A click event carries its target, which may be \<^verbatim>\<open>null\<close>.\<close>

record click_event =
  target :: "node option"

text \<open>\<^verbatim>\<open>evt.target && evt.target.tagName && evt.target.tagName.toUpperCase() === "IMG"\<close>:
  an absent target, an absent tag name and the empty tag name are falsy.\<close>

definition image_target :: "click_event \<Rightarrow> node option" where
  "image_target evt =
     (case target evt of
        None \<Rightarrow> None
      | Some t \<Rightarrow>
          (case tagName t of
             None \<Rightarrow> None
           | Some n \<Rightarrow> if n \<noteq> [] \<and> upper_is_IMG n then Some t else None))"

definition handleClickInsideQuillInstance ::
  "'n::{minus,plus,one} layout \<Rightarrow> click_event \<Rightarrow> state \<Rightarrow> res" where
  "handleClickInsideQuillInstance L evt s =
     andThen (hide s)
       (\<lambda>s1. case image_target evt of Some t \<Rightarrow> show_img L t s1 | None \<Rightarrow> Done s1)"

text \<open>\<^verbatim>\<open>quill.root.contains(null)\<close> is false.\<close>

definition root_contains :: "node option \<Rightarrow> bool" where
  "root_contains t = (case t of None \<Rightarrow> False | Some n \<Rightarrow> in_root n)"

definition handleClickOutsideQuillInstance :: "click_event \<Rightarrow> state \<Rightarrow> res" where
  "handleClickOutsideQuillInstance evt s =
     (if \<not> root_contains (target evt) then hide s else Done s)"

subsection \<open>Keyboard and clipboard\<close>

record key_event =
  keyCode :: nat
  key :: string
  ctrlKey :: bool
  metaKey :: bool

definition is_delete_key :: "key_event \<Rightarrow> bool" where
  "is_delete_key evt = (keyCode evt = 46 \<or> keyCode evt = 8)"

definition is_copy_chord :: "key_event \<Rightarrow> bool" where
  "is_copy_chord evt = ((ctrlKey evt \<or> metaKey evt) \<and> key evt = ''c'')"

definition is_cut_chord :: "key_event \<Rightarrow> bool" where
  "is_cut_chord evt = ((ctrlKey evt \<or> metaKey evt) \<and> key evt = ''x'')"

text \<open>\<^verbatim>\<open>window.Quill.find(img).deleteAt(0)\<close>: the host finds the blot of an image node
  that its document holds and deletes it; for anything else \<^verbatim>\<open>find\<close> gives
  \<^verbatim>\<open>null\<close>, and the method call on it throws.\<close>

definition deleteImage :: "node option \<Rightarrow> state \<Rightarrow> res" where
  "deleteImage i s =
     (case i of
        None \<Rightarrow> Raised (TypeError ''Quill.find(...) is null'') s
      | Some n \<Rightarrow>
          if nid n \<in> set (doc s) then Done (s\<lparr> doc := removeAll (nid n) (doc s) \<rparr>)
          else Raised (TypeError ''Quill.find(...) is null'') s)"

text \<open>What the platform does with one export, which the code cannot choose:
  \<^item> \<open>ToBlobThrows\<close>: \<^verbatim>\<open>canvas.toBlob\<close> throws inside the promise's executor
    (a canvas tainted by a cross-origin image), which rejects the promise;
  \<^item> \<open>CallbackThrows\<close>: the \<^verbatim>\<open>toBlob\<close> callback throws before it reaches
    \<^verbatim>\<open>write\<close> (a \<^verbatim>\<open>null\<close> blob, no \<^verbatim>\<open>ClipboardItem\<close>), so the promise is never
    settled and the callback's own promise is rejected;
  \<^item> \<open>WriteFulfils\<close>: \<^verbatim>\<open>navigator.clipboard.write\<close> fulfils;
  \<^item> \<open>WriteRejects name message\<close>: it rejects with that error.\<close>

datatype clipboard_env =
  ToBlobThrows | CallbackThrows | WriteFulfils | WriteRejects string string

datatype promise = Fulfilled bool | Rejected | Never

text \<open>The synchronous part of \<^verbatim>\<open>copyImageToClipboard\<close>: it reads
  \<^verbatim>\<open>this.img.naturalWidth\<close>, which throws without an image, draws on a canvas
  that is attached nowhere (the canvas calls before \<^verbatim>\<open>toBlob\<close> are taken to
  succeed) and returns the promise.\<close>

definition copyImageToClipboard :: "clipboard_env \<Rightarrow> state \<Rightarrow> error + clipboard_env" where
  "copyImageToClipboard env s =
     (case img s of
        None \<Rightarrow> Inl (TypeError ''this.img is undefined'')
      | Some i \<Rightarrow> Inr env)"

text \<open>How the returned promise settles, in a later turn of the event loop:
  \<^verbatim>\<open>resolve(true)\<close> after the write, or \<^verbatim>\<open>alert(...)\<close> and \<^verbatim>\<open>reject()\<close>.\<close>

definition settle_export :: "clipboard_env \<Rightarrow> state \<Rightarrow> promise \<times> state" where
  "settle_export env s =
     (case env of
        ToBlobThrows \<Rightarrow> (Rejected, s)
      | CallbackThrows \<Rightarrow>
          (Never, s\<lparr> unhandled_rejections := Suc (unhandled_rejections s) \<rparr>)
      | WriteFulfils \<Rightarrow> (Fulfilled True, s)
      | WriteRejects name message \<Rightarrow>
          (Rejected,
           s\<lparr> alerts := alerts s @
                [''Error adding image to clipboard: '' @ name @ '' -> '' @ message] \<rparr>))"

text \<open>\<^verbatim>\<open>checkImage\<close> is an \<^verbatim>\<open>async\<close> function registered as a listener: an exception
  in its body rejects the promise it returns, which nothing observes.\<close>

definition async_reject :: "state \<Rightarrow> state" where
  "async_reject s = s\<lparr> unhandled_rejections := Suc (unhandled_rejections s) \<rparr>"

text \<open>Where the handler stands when its synchronous part ends: finished, finished with
  the export of the copy chord left running, or suspended at the \<^verbatim>\<open>await\<close> of the
  cut chord.\<close>

datatype suspension = Finished | Floating clipboard_env | Awaiting clipboard_env

text \<open>The body up to the \<^verbatim>\<open>await\<close>. The copy and the cut tests are two \<^verbatim>\<open>if\<close>s in a
  row; \<^verbatim>\<open>evt.key\<close> cannot be both \<^verbatim>\<open>"c"\<close> and \<^verbatim>\<open>"x"\<close>, so at most one of them
  runs.\<close>

definition checkImage_sync :: "clipboard_env \<Rightarrow> key_event \<Rightarrow> state \<Rightarrow> suspension \<times> state" where
  "checkImage_sync env evt s =
     (case img s of
        None \<Rightarrow> (Finished, s)
      | Some i \<Rightarrow>
          (case (if is_delete_key evt then andThen (deleteImage (img s) s) hide else Done s) of
             Raised e s1 \<Rightarrow> (Finished, async_reject s1)
           | Done s1 \<Rightarrow>
               if is_copy_chord evt then
                 (let s2 = s1\<lparr> prevented := Suc (prevented s1) \<rparr>
                  in case copyImageToClipboard env s2 of
                       Inl e \<Rightarrow> (Finished, async_reject s2)
                     | Inr p \<Rightarrow> (Floating p, s2))
               else if is_cut_chord evt then
                 (let s2 = s1\<lparr> prevented := Suc (prevented s1) \<rparr>
                  in case copyImageToClipboard env s2 of
                       Inl e \<Rightarrow> (Finished, async_reject s2)
                     | Inr p \<Rightarrow> (Awaiting p, s2))
               else (Finished, s1)))"

text \<open>The body after the \<^verbatim>\<open>await\<close>, on the state as it is when the promise has
  settled: \<^verbatim>\<open>if (imageCopied) { this.deleteImage(this.img); this.hide(); }\<close>; a
  rejected promise makes the \<^verbatim>\<open>await\<close> throw.\<close>

definition checkImage_resume :: "promise \<Rightarrow> state \<Rightarrow> state" where
  "checkImage_resume p s =
     (case p of
        Fulfilled imageCopied \<Rightarrow>
          if imageCopied then
            (case andThen (deleteImage (img s) s) hide of
               Done s1 \<Rightarrow> s1
             | Raised e s1 \<Rightarrow> async_reject s1)
          else s
      | Rejected \<Rightarrow> async_reject s
      | Never \<Rightarrow> s)"

text \<open>The later turn in which the export settles, on the state as the handlers that
  ran in between have left it. The promise of the copy chord has no handler: its
  rejection is unhandled.\<close>

definition export_settles :: "suspension \<Rightarrow> state \<Rightarrow> state" where
  "export_settles k s =
     (case k of
        Finished \<Rightarrow> s
      | Floating env \<Rightarrow>
          (case settle_export env s of
             (Rejected, s1) \<Rightarrow> async_reject s1
           | (p, s1) \<Rightarrow> s1)
      | Awaiting env \<Rightarrow>
          (case settle_export env s of (p, s1) \<Rightarrow> checkImage_resume p s1))"

section \<open>Reachable states\<close>

text \<open>The states the page can be in when its layouts are taken from \<open>Ls\<close>: the
  constructor's, and from there any click, key event, settlement of an export, update
  request from a module, or direct call of \<^verbatim>\<open>show\<close> and \<^verbatim>\<open>hide\<close>, in any order.
  A handler that throws leaves the state it had reached. The settlement of an export
  is a step of its own: other events can come between a key and it.\<close>

inductive reachable :: "'n::{minus,plus,one} layout set \<Rightarrow> state \<Rightarrow> bool"
  for Ls :: "'n layout set" where
  r_new: "reachable Ls (constructor h opt_modules merged)"
| r_click_inside:
    "reachable Ls s \<Longrightarrow> L \<in> Ls \<Longrightarrow>
       reachable Ls (state_of (handleClickInsideQuillInstance L evt s))"
| r_click_outside:
    "reachable Ls s \<Longrightarrow> reachable Ls (state_of (handleClickOutsideQuillInstance evt s))"
| r_key: "reachable Ls s \<Longrightarrow> reachable Ls (snd (checkImage_sync env kevt s))"
| r_settle: "reachable Ls s \<Longrightarrow> reachable Ls (export_settles k s)"
| r_update: "reachable Ls s \<Longrightarrow> L \<in> Ls \<Longrightarrow> reachable Ls (state_of (onUpdate L s))"
| r_show: "reachable Ls s \<Longrightarrow> L \<in> Ls \<Longrightarrow> reachable Ls (state_of (show_img L i s))"
| r_hide: "reachable Ls s \<Longrightarrow> reachable Ls (state_of (hide s))"

text \<open>The overlay elements attached to the container.\<close>

fun is_overlay :: "child \<Rightarrow> bool" where
  "is_overlay (OverlayDiv n) = True"
| "is_overlay (HostChild n) = False"

definition attached_overlays :: "state \<Rightarrow> child list" where
  "attached_overlays s = filter is_overlay (children s)"

text \<open>No selection: no image, no overlay (referenced or attached), no live module.\<close>

definition cleared :: "state \<Rightarrow> bool" where
  "cleared s =
     (img s = None \<and> overlay s = None \<and> modules s = [] \<and> attached_overlays s = [])"

section \<open>Auxiliary notions for the proofs\<close>

text \<open>What \<open>construct_all\<close> builds from a configuration when the instance counter
  stands at \<open>k\<close>: one entry for each identifier up to the first that is not a
  constructor.\<close>

fun built :: "module_spec list \<Rightarrow> nat \<Rightarrow> live_module list" where
  "built [] k = []"
| "built (c # cs) k =
     (case resolve c of
        None \<Rightarrow> []
      | Some ObjectCtor \<Rightarrow> Controller # built cs k
      | Some (ModuleCtor cl) \<Rightarrow> Module \<lparr> mid = k, mclass = cl \<rparr> # built cs (Suc k))"

definition resolvable :: "module_spec list \<Rightarrow> bool" where
  "resolvable cs = list_all (\<lambda>c. resolve c \<noteq> None) cs"

text \<open>The module instances among the live modules, by number.\<close>

fun module_ids :: "live_module list \<Rightarrow> nat list" where
  "module_ids [] = []"
| "module_ids (Module m # ms) = mid m # module_ids ms"
| "module_ids (Controller # ms) = module_ids ms"

text \<open>The calls a \<^verbatim>\<open>forEach\<close> over the live modules makes before it ends or
  throws.\<close>

fun called :: "(nat \<Rightarrow> module_call) \<Rightarrow> live_module list \<Rightarrow> module_call list" where
  "called f [] = []"
| "called f (Module m # ms) = f (mid m) # called f ms"
| "called f (Controller # ms) = []"

text \<open>The configuration does not name \<^verbatim>\<open>"constructor"\<close>.\<close>

definition well_configured :: "state \<Rightarrow> bool" where
  "well_configured s = (Name ''constructor'' \<notin> set (moduleClasses s))"

text \<open>The overlay elements attached to the container are exactly the one the
  controller references, if it references one.\<close>

definition overlay_tracked :: "state \<Rightarrow> bool" where
  "overlay_tracked s =
     (attached_overlays s =
        (case overlay s of None \<Rightarrow> [] | Some ov \<Rightarrow> [OverlayDiv (oid ov)]))"

definition consistent :: "state \<Rightarrow> bool" where
  "consistent s =
     (overlay_tracked s \<and>
      (img s = None \<longrightarrow> overlay s = None \<and> modules s = []) \<and>
      (well_configured s \<longrightarrow> Controller \<notin> set (modules s)))"

text \<open>What a handler may change when it only repositions and calls into modules: the
  style of the overlay and the trace.\<close>

definition restyled :: "state \<Rightarrow> state \<Rightarrow> bool" where
  "restyled s s' =
     (s'\<lparr> overlay := None, trace := [] \<rparr> = s\<lparr> overlay := None, trace := [] \<rparr>
      \<and> map_option oid (overlay s') = map_option oid (overlay s))"

section \<open>A sample page\<close>

text \<open>A page that measures in small integers, on which the arithmetic of JavaScript
  numbers is exact. The text of a safe integer (of magnitude below \<open>2\<^sup>5\<^sup>3\<close>) is
  its decimal digits; the sample gives no text for other integers.\<close>

definition digit :: "nat \<Rightarrow> char" where
  "digit d = ''0123456789'' ! (d mod 10)"

function digits :: "nat \<Rightarrow> string" where
  "digits n = (if n < 10 then [digit n] else digits (n div 10) @ [digit (n mod 10)])"
  by pat_completeness auto
termination
  by (relation "measure id") auto

definition safe_integer_text :: "int \<Rightarrow> string" where
  "safe_integer_text i =
     (if \<bar>i\<bar> < 9007199254740992
      then (if i < 0 then CHR ''-'' # digits (nat (- i)) else digits (nat i))
      else [])"

text \<open>Two images in the host document, the default modules, and the layout of the
  worked example: an image at \<open>(100, 50)\<close> of size \<open>200 \<times> 150\<close> in a container at
  \<open>(20, 10)\<close> scrolled by \<open>5\<close> to the left.\<close>

definition sample_host :: host where
  "sample_host =
     \<lparr> host_children = [0], host_position = [], host_doc = [7, 8], host_stack = 10000 \<rparr>"

definition sample_options :: options where
  "sample_options =
     \<lparr> merged_modules = [Name ''DisplaySize'', Name ''Toolbar'', Name ''Resize''],
       merged_overlayStyles =
         [(''position'', ''absolute''), (''boxSizing'', ''border-box''),
          (''border'', ''1px dashed #444'')] \<rparr>"

definition sample_layout :: "int layout" where
  "sample_layout =
     \<lparr> imgRect = (\<lambda>n. \<lparr> rect_left = 100, rect_top = 50, rect_width = 200, rect_height = 150 \<rparr>),
       containerRect = \<lparr> rect_left = 20, rect_top = 10, rect_width = 800, rect_height = 600 \<rparr>,
       scrollLeft = 5,
       scrollTop = 0,
       number_text = safe_integer_text \<rparr>"

text \<open>Nodes: an \<open>IMG\<close> and an \<open>img\<close> that the host document holds, an \<open>IMG\<close>
  inside the editor that it does not hold, a \<open>P\<close>, and the \<open>BODY\<close> outside.\<close>

definition image_a :: node where
  "image_a = \<lparr> nid = 7, tagName = Some [73, 77, 71], in_root = True \<rparr>"

definition image_b :: node where
  "image_b = \<lparr> nid = 8, tagName = Some [105, 109, 103], in_root = True \<rparr>"

definition stale_image :: node where
  "stale_image = \<lparr> nid = 9, tagName = Some [73, 77, 71], in_root = True \<rparr>"



definition outside_node :: node where
  "outside_node = \<lparr> nid = 90, tagName = Some [66, 79, 68, 89], in_root = False \<rparr>"

definition fresh_page :: state where
  "fresh_page = constructor sample_host None sample_options"

definition selected_a :: state where
  "selected_a = state_of (show_img sample_layout image_a fresh_page)"

text \<open>The same page with the image selected that the host document does not hold.\<close>

definition selected_stale :: state where
  "selected_stale = state_of (show_img sample_layout stale_image fresh_page)"

text \<open>The page configured with \<^verbatim>\<open>modules: ["DisplaySize", "constructor"]\<close>, before and
  after a select.\<close>

definition misconfigured_page :: state where
  "misconfigured_page =
     constructor sample_host (Some [Name ''DisplaySize'', Name ''constructor'']) sample_options"

definition selected_misconfigured :: state where
  "selected_misconfigured = state_of (show_img sample_layout image_a misconfigured_page)"

definition key_delete :: key_event where
  "key_delete = \<lparr> keyCode = 46, key = ''Delete'', ctrlKey = False, metaKey = False \<rparr>"

definition key_copy :: key_event where
  "key_copy = \<lparr> keyCode = 67, key = ''c'', ctrlKey = True, metaKey = False \<rparr>"

definition key_cut :: key_event where
  "key_cut = \<lparr> keyCode = 88, key = ''x'', ctrlKey = True, metaKey = False \<rparr>"

section \<open>Basic facts\<close>

lemma state_of_andThen:
  "state_of (andThen r f) = (if completed r then state_of (f (state_of r)) else state_of r)"
  by (cases r) simp_all

lemma completed_andThen:
  "completed (andThen r f) = (completed r \<and> completed (f (state_of r)))"
  by (cases r) simp_all


lemma thrown_or_done:
  "state_of ((if c then Raised e else Done) s) = s"
  "completed ((if c then Raised e else Done) s) = (\<not> c)"
  by simp_all

lemma construct_all_eq:
  "construct_all cs s =
     (if resolvable cs then Inr (built cs (next_mod s))
      else Inl (TypeError ''not a constructor''),
      s\<lparr> next_mod := next_mod s + length (module_ids (built cs (next_mod s))),
         trace := trace s @ map Constructed (module_ids (built cs (next_mod s))) \<rparr>)"
proof (induction cs arbitrary: s)
  case Nil
  show ?case by (simp add: resolvable_def)
next
  case (Cons c cs)
  show ?case
  proof (cases "resolve c")
    case None
    then show ?thesis by (simp add: resolvable_def)
  next
    case (Some k)
    then show ?thesis
      by (cases k) (simp_all add: Cons.IH Let_def resolvable_def)
  qed
qed

lemma built_well_configured:
  "Name ''constructor'' \<notin> set cs \<Longrightarrow> Controller \<notin> set (built cs k)"
proof (induction cs arbitrary: k)
  case Nil
  show ?case by simp
next
  case (Cons c cs)
  then show ?case
    by (cases c) (auto split: option.splits ctor.splits if_splits)
qed


lemma destroy_each_eq:
  "destroy_each ms s =
     (if Controller \<in> set ms
      then Raised (TypeError ''module.onDestroy is not a function'') else Done)
       (s\<lparr> trace := trace s @ called OnDestroy ms \<rparr>)"
  by (induction ms s rule: destroy_each.induct) simp_all

lemma create_each_eq:
  "create_each ms s =
     (if Controller \<in> set ms
      then Raised (TypeError ''module.onCreate is not a function'') else Done)
       (s\<lparr> trace := trace s @ called OnCreate ms \<rparr>)"
  by (induction ms s rule: create_each.induct) simp_all

lemma update_each_modules_only:
  "Controller \<notin> set ms \<Longrightarrow>
     update_each self ms s = Done (s\<lparr> trace := trace s @ called OnUpdate ms \<rparr>)"
proof (induction ms arbitrary: s)
  case Nil
  show ?case by simp
next
  case (Cons a ms)
  then show ?case by (cases a) simp_all
qed

lemma removeModules_eq:
  "removeModules s =
     (if Controller \<in> set (modules s)
      then Raised (TypeError ''module.onDestroy is not a function'')
             (s\<lparr> trace := trace s @ called OnDestroy (modules s) \<rparr>)
      else Done (s\<lparr> trace := trace s @ called OnDestroy (modules s), modules := [] \<rparr>))"
  by (simp add: removeModules_def destroy_each_eq)

lemma filter_single_holds: "filter P xs = [x] \<Longrightarrow> P x \<and> x \<in> set xs"
proof -
  assume h: "filter P xs = [x]"
  have "x \<in> set (filter P xs)" by (simp add: h)
  then show ?thesis by simp
qed

lemma filter_remove1_single:
  "filter P xs = [x] \<Longrightarrow> filter P (remove1 x xs) = []"
proof (induction xs)
  case Nil
  then show ?case by simp
next
  case (Cons a xs)
  have px: "P x" using filter_single_holds [OF Cons.prems] by simp
  show ?case
  proof (cases "P a")
    case True
    with Cons.prems have "a = x" and "filter P xs = []" by simp_all
    then show ?thesis by simp
  next
    case False
    with px have "a \<noteq> x" by auto
    moreover from False Cons.prems have "filter P xs = [x]" by simp
    ultimately show ?thesis using False Cons.IH by simp
  qed
qed

lemma setUserSelect_frame:
  "img (setUserSelect v s) = img s"
  "overlay (setUserSelect v s) = overlay s"
  "modules (setUserSelect v s) = modules s"
  "moduleClasses (setUserSelect v s) = moduleClasses s"
  "overlayStyles (setUserSelect v s) = overlayStyles s"
  "children (setUserSelect v s) = children s"
  "parent_listeners (setUserSelect v s) = parent_listeners s"
  "window_listeners (setUserSelect v s) = window_listeners s"
  "root_listeners (setUserSelect v s) = root_listeners s"
  "doc (setUserSelect v s) = doc s"
  "trace (setUserSelect v s) = trace s"
  "alerts (setUserSelect v s) = alerts s"
  "prevented (setUserSelect v s) = prevented s"
  "unhandled_rejections (setUserSelect v s) = unhandled_rejections s"
  "next_el (setUserSelect v s) = next_el s"
  "next_mod (setUserSelect v s) = next_mod s"
  "stack_spare (setUserSelect v s) = stack_spare s"
  by (simp_all add: setUserSelect_def)

lemma repositionElements_frame:
  "img (repositionElements L s) = img s"
  "map_option oid (overlay (repositionElements L s)) = map_option oid (overlay s)"
  "modules (repositionElements L s) = modules s"
  "moduleClasses (repositionElements L s) = moduleClasses s"
  "overlayStyles (repositionElements L s) = overlayStyles s"
  "children (repositionElements L s) = children s"
  "parent_listeners (repositionElements L s) = parent_listeners s"
  "window_listeners (repositionElements L s) = window_listeners s"
  "root_listeners (repositionElements L s) = root_listeners s"
  "doc (repositionElements L s) = doc s"
  "trace (repositionElements L s) = trace s"
  "alerts (repositionElements L s) = alerts s"
  "prevented (repositionElements L s) = prevented s"
  "unhandled_rejections (repositionElements L s) = unhandled_rejections s"
  "next_el (repositionElements L s) = next_el s"
  "next_mod (repositionElements L s) = next_mod s"
  "stack_spare (repositionElements L s) = stack_spare s"
  by (simp_all add: repositionElements_def Let_def split: option.splits)

lemma repositionElements_overlay_None:
  "(overlay (repositionElements L s) = None) = (overlay s = None)"
  by (simp add: repositionElements_def Let_def split: option.splits)

lemma repositionElements_tracked:
  "overlay_tracked (repositionElements L s) = overlay_tracked s"
  by (simp add: overlay_tracked_def attached_overlays_def repositionElements_def Let_def
      split: option.splits)

subsection \<open>Handlers that only restyle\<close>

lemma restyled_refl: "restyled s s"
  by (simp add: restyled_def)

lemma restyled_trans: "restyled s t \<Longrightarrow> restyled t u \<Longrightarrow> restyled s u"
  by (simp add: restyled_def)

lemma restyled_trace: "restyled s (s\<lparr> trace := tr \<rparr>)"
  by (simp add: restyled_def)

lemma restyled_reposition: "restyled s (repositionElements L s)"
  by (simp add: restyled_def repositionElements_def Let_def split: option.splits)

lemma restyled_frame:
  assumes "restyled s s'"
  shows "img s' = img s"
    and "modules s' = modules s"
    and "moduleClasses s' = moduleClasses s"
    and "children s' = children s"
    and "parent_listeners s' = parent_listeners s"
    and "window_listeners s' = window_listeners s"
    and "doc s' = doc s"
    and "alerts s' = alerts s"
    and "prevented s' = prevented s"
    and "unhandled_rejections s' = unhandled_rejections s"
    and "next_mod s' = next_mod s"
    and "stack_spare s' = stack_spare s"
    and "map_option oid (overlay s') = map_option oid (overlay s)"
proof -
  from assms have e: "s'\<lparr> overlay := None, trace := [] \<rparr> = s\<lparr> overlay := None, trace := [] \<rparr>"
    by (simp add: restyled_def)
  show "img s' = img s" using arg_cong [OF e, of img] by simp
  show "modules s' = modules s" using arg_cong [OF e, of modules] by simp
  show "moduleClasses s' = moduleClasses s" using arg_cong [OF e, of moduleClasses] by simp
  show "children s' = children s" using arg_cong [OF e, of children] by simp
  show "parent_listeners s' = parent_listeners s"
    using arg_cong [OF e, of parent_listeners] by simp
  show "window_listeners s' = window_listeners s"
    using arg_cong [OF e, of window_listeners] by simp
  show "doc s' = doc s" using arg_cong [OF e, of doc] by simp
  show "alerts s' = alerts s" using arg_cong [OF e, of alerts] by simp
  show "prevented s' = prevented s" using arg_cong [OF e, of prevented] by simp
  show "unhandled_rejections s' = unhandled_rejections s"
    using arg_cong [OF e, of unhandled_rejections] by simp
  show "next_mod s' = next_mod s" using arg_cong [OF e, of next_mod] by simp
  show "stack_spare s' = stack_spare s" using arg_cong [OF e, of stack_spare] by simp
  show "map_option oid (overlay s') = map_option oid (overlay s)"
    using assms by (simp add: restyled_def)
qed

lemma update_each_restyled:
  assumes "\<And>t. restyled t (state_of (self t))"
  shows "restyled s (state_of (update_each self ms s))"
proof (induction ms arbitrary: s)
  case Nil
  show ?case by (simp add: restyled_refl)
next
  case (Cons a ms)
  show ?case
  proof (cases a)
    case (Module m)
    have "restyled s (s\<lparr> trace := trace s @ [OnUpdate (mid m)] \<rparr>)"
      by (rule restyled_trace)
    with Cons.IH [of "s\<lparr> trace := trace s @ [OnUpdate (mid m)] \<rparr>"] Module show ?thesis
      by (auto intro: restyled_trans)
  next
    case Controller
    show ?thesis
    proof (cases "self s")
      case (Done t)
      from Done assms [of s] have "restyled s t" by simp
      with Cons.IH [of t] Done Controller show ?thesis
        by (auto intro: restyled_trans)
    next
      case (Raised e t)
      from Raised assms [of s] Controller show ?thesis by simp
    qed
  qed
qed

lemma onUpdate_nested_restyled: "restyled s (state_of (onUpdate_nested d L s))"
proof (induction d arbitrary: s)
  case 0
  show ?case by (simp add: restyled_refl)
next
  case (Suc d)
  have "restyled (repositionElements L s)
      (state_of (update_each (onUpdate_nested d L) (modules (repositionElements L s))
         (repositionElements L s)))"
    by (rule update_each_restyled) (rule Suc.IH)
  with restyled_reposition [of s L] show ?case
    by (auto simp: Let_def intro: restyled_trans)
qed

lemma onUpdate_restyled: "restyled s (state_of (onUpdate L s))"
  by (simp add: onUpdate_def onUpdate_nested_restyled del: onUpdate_nested.simps)

lemma onUpdate_eq:
  assumes "Controller \<notin> set (modules s)"
  shows "onUpdate L s =
     Done ((repositionElements L s)\<lparr> trace := trace s @ called OnUpdate (modules s) \<rparr>)"
  using assms
  by (simp add: onUpdate_def Let_def update_each_modules_only repositionElements_frame)

subsection \<open>Overlay bookkeeping\<close>

lemma hideOverlay_tracked:
  assumes "overlay_tracked s"
  shows "\<exists>s'. hideOverlay s = Done s' \<and> overlay s' = None \<and> attached_overlays s' = []
           \<and> img s' = img s \<and> modules s' = modules s \<and> trace s' = trace s
           \<and> doc s' = doc s \<and> window_listeners s' = window_listeners s
           \<and> moduleClasses s' = moduleClasses s \<and> next_mod s' = next_mod s
           \<and> alerts s' = alerts s \<and> prevented s' = prevented s
           \<and> unhandled_rejections s' = unhandled_rejections s
           \<and> (overlay s = None \<longrightarrow> s' = s)
           \<and> (overlay s \<noteq> None \<longrightarrow>
                (''keyup'', CheckImage, False) \<notin> set (parent_listeners s'))"
proof (cases "overlay s")
  case None
  with assms show ?thesis
    by (simp add: hideOverlay_def overlay_tracked_def)
next
  case (Some ov)
  with assms have f: "filter is_overlay (children s) = [OverlayDiv (oid ov)]"
    by (simp add: overlay_tracked_def attached_overlays_def)
  have mem: "OverlayDiv (oid ov) \<in> set (children s)"
    using filter_single_holds [OF f] by simp
  have gone: "filter is_overlay (remove1 (OverlayDiv (oid ov)) (children s)) = []"
    using filter_remove1_single [OF f] .
  show ?thesis
    using Some mem gone
    by (simp add: hideOverlay_def setUserSelect_frame attached_overlays_def
        removeEventListener_def)
qed

lemma addEventListener_mem: "l \<in> set (addEventListener l ls)"
  by (simp add: addEventListener_def)

lemma showOverlay_after_hide:
  assumes "(case overlay s of None \<Rightarrow> Done s | Some ov \<Rightarrow> hideOverlay s) = Done s1"
  shows "showOverlay L s =
     Done (repositionElements L
       ((setUserSelect ''none'' (s1\<lparr> quill_selection := None \<rparr>))
          \<lparr> window_listeners :=
              addEventListener (''click'', HandleClickOutsideQuillInstance, True)
                (window_listeners s1),
            overlay := Some \<lparr> oid = next_el s1, style = assign [] (overlayStyles s1) \<rparr>,
            next_el := Suc (next_el s1),
            parent_tabIndex := Some ''0'',
            parent_listeners :=
              addEventListener (''keyup'', CheckImage, False) (parent_listeners s1),
            parent_focused := True,
            children := children s1 @ [OverlayDiv (next_el s1)] \<rparr>))"
  unfolding showOverlay_def assms
  by (simp add: Let_def setUserSelect_frame)


lemma showOverlay_tracked:
  assumes "overlay_tracked s"
  shows "\<exists>s' ov. showOverlay L s = Done s' \<and> overlay s' = Some ov
           \<and> attached_overlays s' = [OverlayDiv (oid ov)] \<and> overlay_tracked s'
           \<and> img s' = img s \<and> modules s' = modules s \<and> trace s' = trace s
           \<and> doc s' = doc s \<and> moduleClasses s' = moduleClasses s
           \<and> next_mod s' = next_mod s \<and> alerts s' = alerts s
           \<and> prevented s' = prevented s
           \<and> unhandled_rejections s' = unhandled_rejections s
           \<and> (''click'', HandleClickOutsideQuillInstance, True) \<in> set (window_listeners s')
           \<and> (''keyup'', CheckImage, False) \<in> set (parent_listeners s')"
proof -
  from hideOverlay_tracked [OF assms] obtain s1 where
    h: "hideOverlay s = Done s1" and o: "overlay s1 = None" and a: "attached_overlays s1 = []"
    and rest: "img s1 = img s" "modules s1 = modules s" "trace s1 = trace s"
      "doc s1 = doc s" "window_listeners s1 = window_listeners s"
      "moduleClasses s1 = moduleClasses s" "next_mod s1 = next_mod s"
      "alerts s1 = alerts s" "prevented s1 = prevented s"
      "unhandled_rejections s1 = unhandled_rejections s"
    by blast
  have "(case overlay s of None \<Rightarrow> Done s | Some ov \<Rightarrow> hideOverlay s) = hideOverlay s"
    by (simp add: hideOverlay_def split: option.splits)
  with h have first:
    "(case overlay s of None \<Rightarrow> Done s | Some ov \<Rightarrow> hideOverlay s) = Done s1"
    by simp
  from a have ch: "filter is_overlay (children s1) = []"
    by (simp add: attached_overlays_def)
  define s9 where "s9 =
       (setUserSelect ''none'' (s1\<lparr> quill_selection := None \<rparr>))
          \<lparr> window_listeners :=
              addEventListener (''click'', HandleClickOutsideQuillInstance, True)
                (window_listeners s1),
            overlay := Some \<lparr> oid = next_el s1, style = assign [] (overlayStyles s1) \<rparr>,
            next_el := Suc (next_el s1),
            parent_tabIndex := Some ''0'',
            parent_listeners :=
              addEventListener (''keyup'', CheckImage, False) (parent_listeners s1),
            parent_focused := True,
            children := children s1 @ [OverlayDiv (next_el s1)] \<rparr>"
  have run: "showOverlay L s = Done (repositionElements L s9)"
    unfolding s9_def by (rule showOverlay_after_hide [OF first])
  have o9: "overlay s9 = Some \<lparr> oid = next_el s1, style = assign [] (overlayStyles s1) \<rparr>"
    and c9: "children s9 = children s1 @ [OverlayDiv (next_el s1)]"
    and w9: "window_listeners s9 =
        addEventListener (''click'', HandleClickOutsideQuillInstance, True) (window_listeners s1)"
    and p9: "parent_listeners s9 =
        addEventListener (''keyup'', CheckImage, False) (parent_listeners s1)"
    and rest9: "img s9 = img s1" "modules s9 = modules s1" "trace s9 = trace s1"
      "doc s9 = doc s1" "moduleClasses s9 = moduleClasses s1" "next_mod s9 = next_mod s1"
      "alerts s9 = alerts s1" "prevented s9 = prevented s1"
      "unhandled_rejections s9 = unhandled_rejections s1"
    by (simp_all add: s9_def setUserSelect_frame)
  have t9: "overlay_tracked s9"
    using o9 c9 ch by (simp add: overlay_tracked_def attached_overlays_def)
  let ?s' = "repositionElements L s9"
  have t': "overlay_tracked ?s'" using t9 by (simp add: repositionElements_tracked)
  from o9 have "overlay ?s' \<noteq> None" by (simp add: repositionElements_overlay_None)
  then obtain ov where ov: "overlay ?s' = Some ov" by blast
  with t' have att: "attached_overlays ?s' = [OverlayDiv (oid ov)]"
    by (simp add: overlay_tracked_def)
  have w: "(''click'', HandleClickOutsideQuillInstance, True) \<in> set (window_listeners ?s')"
    by (simp add: repositionElements_frame w9 addEventListener_mem)
  have p: "(''keyup'', CheckImage, False) \<in> set (parent_listeners ?s')"
    by (simp add: repositionElements_frame p9 addEventListener_mem)
  have frame: "img ?s' = img s" "modules ?s' = modules s" "trace ?s' = trace s"
      "doc ?s' = doc s" "moduleClasses ?s' = moduleClasses s" "next_mod ?s' = next_mod s"
      "alerts ?s' = alerts s" "prevented ?s' = prevented s"
      "unhandled_rejections ?s' = unhandled_rejections s"
    by (simp_all add: repositionElements_frame rest rest9)
  show ?thesis
    using run ov att t' frame w p by blast
qed

lemma overlay_tracked_cong:
  assumes "children s' = children s" and "map_option oid (overlay s') = map_option oid (overlay s)"
  shows "overlay_tracked s' = overlay_tracked s"
proof -
  have "(case overlay s' of None \<Rightarrow> [] | Some ov \<Rightarrow> [OverlayDiv (oid ov)]) =
        (case map_option oid (overlay s') of None \<Rightarrow> [] | Some n \<Rightarrow> [OverlayDiv n])"
    by (cases "overlay s'") simp_all
  moreover have "(case overlay s of None \<Rightarrow> [] | Some ov \<Rightarrow> [OverlayDiv (oid ov)]) =
        (case map_option oid (overlay s) of None \<Rightarrow> [] | Some n \<Rightarrow> [OverlayDiv n])"
    by (cases "overlay s") simp_all
  ultimately show ?thesis
    using assms by (simp add: overlay_tracked_def attached_overlays_def)
qed

lemma overlay_None_cong:
  assumes "map_option oid (overlay s') = map_option oid (overlay s)"
  shows "(overlay s' = None) = (overlay s = None)"
  using assms by (cases "overlay s'"; cases "overlay s") simp_all

lemma restyled_tracked: "restyled s s' \<Longrightarrow> overlay_tracked s' = overlay_tracked s"
  by (rule overlay_tracked_cong) (simp_all add: restyled_frame)

lemma restyled_overlay_None: "restyled s s' \<Longrightarrow> (overlay s' = None) = (overlay s = None)"
  by (rule overlay_None_cong) (simp add: restyled_frame)

text \<open>\<^verbatim>\<open>hide\<close> on a state whose overlay is tracked: the overlay goes in any case; the
  modules and the image reference go unless the controller is among the modules, in
  which case \<^verbatim>\<open>removeModules\<close> throws.\<close>

lemma hide_effect:
  assumes "overlay_tracked s"
  shows "completed (hide s) = (Controller \<notin> set (modules s))"
    and "overlay (state_of (hide s)) = None"
    and "attached_overlays (state_of (hide s)) = []"
    and "img (state_of (hide s)) = (if Controller \<in> set (modules s) then img s else None)"
    and "modules (state_of (hide s)) =
           (if Controller \<in> set (modules s) then modules s else [])"
    and "trace (state_of (hide s)) = trace s @ called OnDestroy (modules s)"
    and "doc (state_of (hide s)) = doc s"
    and "window_listeners (state_of (hide s)) = window_listeners s"
    and "moduleClasses (state_of (hide s)) = moduleClasses s"
    and "next_mod (state_of (hide s)) = next_mod s"
    and "alerts (state_of (hide s)) = alerts s"
    and "prevented (state_of (hide s)) = prevented s"
    and "unhandled_rejections (state_of (hide s)) = unhandled_rejections s"
    and "overlay s \<noteq> None \<longrightarrow>
           (''keyup'', CheckImage, False) \<notin> set (parent_listeners (state_of (hide s)))"
proof -
  from hideOverlay_tracked [OF assms] obtain s1 where
    h: "hideOverlay s = Done s1" and o: "overlay s1 = None" and a: "attached_overlays s1 = []"
    and rest: "img s1 = img s" "modules s1 = modules s" "trace s1 = trace s"
      "doc s1 = doc s" "window_listeners s1 = window_listeners s"
      "moduleClasses s1 = moduleClasses s" "next_mod s1 = next_mod s"
      "alerts s1 = alerts s" "prevented s1 = prevented s"
      "unhandled_rejections s1 = unhandled_rejections s"
    and k: "overlay s \<noteq> None \<longrightarrow> (''keyup'', CheckImage, False) \<notin> set (parent_listeners s1)"
    by blast
  have run: "hide s =
     (if Controller \<in> set (modules s)
      then Raised (TypeError ''module.onDestroy is not a function'')
             (s1\<lparr> trace := trace s @ called OnDestroy (modules s) \<rparr>)
      else Done (s1\<lparr> trace := trace s @ called OnDestroy (modules s), modules := [],
                    img := None \<rparr>))"
    by (simp add: hide_def h removeModules_eq rest)
  show "completed (hide s) = (Controller \<notin> set (modules s))"
    by (simp add: run)
  show "overlay (state_of (hide s)) = None"
    by (simp add: run o)
  show "attached_overlays (state_of (hide s)) = []"
    using a by (simp add: run attached_overlays_def)
  show "img (state_of (hide s)) = (if Controller \<in> set (modules s) then img s else None)"
    by (simp add: run rest)
  show "modules (state_of (hide s)) =
           (if Controller \<in> set (modules s) then modules s else [])"
    by (simp add: run rest)
  show "trace (state_of (hide s)) = trace s @ called OnDestroy (modules s)"
    by (simp add: run)
  show "doc (state_of (hide s)) = doc s"
    and "window_listeners (state_of (hide s)) = window_listeners s"
    and "moduleClasses (state_of (hide s)) = moduleClasses s"
    and "next_mod (state_of (hide s)) = next_mod s"
    and "alerts (state_of (hide s)) = alerts s"
    and "prevented (state_of (hide s)) = prevented s"
    and "unhandled_rejections (state_of (hide s)) = unhandled_rejections s"
    by (simp_all add: run rest)
  show "overlay s \<noteq> None \<longrightarrow>
           (''keyup'', CheckImage, False) \<notin> set (parent_listeners (state_of (hide s)))"
    using k by (simp add: run)
qed

lemma hide_tracked: "overlay_tracked s \<Longrightarrow> overlay_tracked (state_of (hide s))"
  by (simp add: overlay_tracked_def hide_effect)


subsection \<open>Initialising modules and selecting\<close>

lemma onUpdate_frame:
  "img (state_of (onUpdate L s)) = img s"
  "modules (state_of (onUpdate L s)) = modules s"
  "moduleClasses (state_of (onUpdate L s)) = moduleClasses s"
  "children (state_of (onUpdate L s)) = children s"
  "parent_listeners (state_of (onUpdate L s)) = parent_listeners s"
  "window_listeners (state_of (onUpdate L s)) = window_listeners s"
  "doc (state_of (onUpdate L s)) = doc s"
  "alerts (state_of (onUpdate L s)) = alerts s"
  "prevented (state_of (onUpdate L s)) = prevented s"
  "unhandled_rejections (state_of (onUpdate L s)) = unhandled_rejections s"
  "next_mod (state_of (onUpdate L s)) = next_mod s"
  "map_option oid (overlay (state_of (onUpdate L s))) = map_option oid (overlay s)"
  using restyled_frame [OF onUpdate_restyled [of s L]] by simp_all

lemma initializeModules_eq:
  "initializeModules L s =
     (if Controller \<in> set (modules s)
      then Raised (TypeError ''module.onDestroy is not a function'')
             (s\<lparr> trace := trace s @ called OnDestroy (modules s) \<rparr>)
      else
        (let new = built (moduleClasses s) (next_mod s);
             s2 = s\<lparr> trace := trace s @ called OnDestroy (modules s)
                        @ map Constructed (module_ids new),
                     modules := [],
                     next_mod := next_mod s + length (module_ids new) \<rparr>
         in if \<not> resolvable (moduleClasses s)
            then Raised (TypeError ''not a constructor'') s2
            else if Controller \<in> set new
            then Raised (TypeError ''module.onCreate is not a function'')
                   (s2\<lparr> modules := new, trace := trace s2 @ called OnCreate new \<rparr>)
            else onUpdate L (s2\<lparr> modules := new, trace := trace s2 @ called OnCreate new \<rparr>)))"
  by (simp add: initializeModules_def removeModules_eq construct_all_eq create_each_eq Let_def)

lemma initializeModules_frame:
  "img (state_of (initializeModules L s)) = img s"
  "map_option oid (overlay (state_of (initializeModules L s))) = map_option oid (overlay s)"
  "moduleClasses (state_of (initializeModules L s)) = moduleClasses s"
  "children (state_of (initializeModules L s)) = children s"
  "parent_listeners (state_of (initializeModules L s)) = parent_listeners s"
  "window_listeners (state_of (initializeModules L s)) = window_listeners s"
  "doc (state_of (initializeModules L s)) = doc s"
  "alerts (state_of (initializeModules L s)) = alerts s"
  "prevented (state_of (initializeModules L s)) = prevented s"
  "unhandled_rejections (state_of (initializeModules L s)) = unhandled_rejections s"
  by (simp_all add: initializeModules_eq Let_def onUpdate_frame)

lemma initializeModules_modules_subset:
  "set (modules (state_of (initializeModules L s)))
     \<subseteq> set (modules s) \<union> set (built (moduleClasses s) (next_mod s))"
  by (simp add: initializeModules_eq Let_def onUpdate_frame)

lemma initializeModules_tracked:
  "overlay_tracked (state_of (initializeModules L s)) = overlay_tracked s"
  by (rule overlay_tracked_cong) (simp_all add: initializeModules_frame)

text \<open>With module instances only, before and after.\<close>

lemma initializeModules_modules:
  assumes "Controller \<notin> set (modules s)"
    and "Controller \<notin> set (built (moduleClasses s) (next_mod s))"
  shows "completed (initializeModules L s) = resolvable (moduleClasses s)"
    and "modules (state_of (initializeModules L s)) =
       (if resolvable (moduleClasses s) then built (moduleClasses s) (next_mod s) else [])"
    and "trace (state_of (initializeModules L s)) =
       trace s @ called OnDestroy (modules s)
         @ map Constructed (module_ids (built (moduleClasses s) (next_mod s)))
         @ (if resolvable (moduleClasses s)
            then called OnCreate (built (moduleClasses s) (next_mod s))
               @ called OnUpdate (built (moduleClasses s) (next_mod s))
            else [])"
  using assms
  by (simp_all add: initializeModules_eq Let_def onUpdate_eq repositionElements_frame)

lemma show_img_effect:
  assumes "overlay_tracked s"
  shows "img (state_of (show_img L i s)) = Some i"
    and "overlay (state_of (show_img L i s)) \<noteq> None"
    and "overlay_tracked (state_of (show_img L i s))"
    and "doc (state_of (show_img L i s)) = doc s"
    and "moduleClasses (state_of (show_img L i s)) = moduleClasses s"
    and "alerts (state_of (show_img L i s)) = alerts s"
    and "prevented (state_of (show_img L i s)) = prevented s"
    and "unhandled_rejections (state_of (show_img L i s)) = unhandled_rejections s"
    and "(''click'', HandleClickOutsideQuillInstance, True)
           \<in> set (window_listeners (state_of (show_img L i s)))"
    and "(''keyup'', CheckImage, False) \<in> set (parent_listeners (state_of (show_img L i s)))"
    and "set (modules (state_of (show_img L i s)))
           \<subseteq> set (modules s) \<union> set (built (moduleClasses s) (next_mod s))"
    and "Controller \<notin> set (modules s) \<and> Controller \<notin> set (built (moduleClasses s) (next_mod s))
         \<longrightarrow> completed (show_img L i s) = resolvable (moduleClasses s)
           \<and> modules (state_of (show_img L i s)) =
               (if resolvable (moduleClasses s) then built (moduleClasses s) (next_mod s) else [])
           \<and> trace (state_of (show_img L i s)) =
               trace s @ called OnDestroy (modules s)
                 @ map Constructed (module_ids (built (moduleClasses s) (next_mod s)))
                 @ (if resolvable (moduleClasses s)
                    then called OnCreate (built (moduleClasses s) (next_mod s))
                       @ called OnUpdate (built (moduleClasses s) (next_mod s))
                    else [])"
proof -
  have t: "overlay_tracked (s\<lparr> img := Some i \<rparr>)"
    using assms by (simp add: overlay_tracked_def attached_overlays_def)
  from showOverlay_tracked [OF t, of L] obtain s1 ov where
    run: "showOverlay L (s\<lparr> img := Some i \<rparr>) = Done s1"
    and o1: "overlay s1 = Some ov" and t1: "overlay_tracked s1"
    and f1: "img s1 = Some i" "modules s1 = modules s" "trace s1 = trace s"
      "doc s1 = doc s" "moduleClasses s1 = moduleClasses s" "next_mod s1 = next_mod s"
      "alerts s1 = alerts s" "prevented s1 = prevented s"
      "unhandled_rejections s1 = unhandled_rejections s"
    and w1: "(''click'', HandleClickOutsideQuillInstance, True) \<in> set (window_listeners s1)"
    and p1: "(''keyup'', CheckImage, False) \<in> set (parent_listeners s1)"
    by auto
  have eq: "show_img L i s = initializeModules L s1"
    by (simp add: show_img_def run)
  show "img (state_of (show_img L i s)) = Some i"
    by (simp add: eq initializeModules_frame f1)
  have "(overlay (state_of (initializeModules L s1)) = None) = (overlay s1 = None)"
    by (rule overlay_None_cong) (simp add: initializeModules_frame)
  then show "overlay (state_of (show_img L i s)) \<noteq> None"
    by (simp add: eq o1)
  show "overlay_tracked (state_of (show_img L i s))"
    by (simp add: eq initializeModules_tracked t1)
  show "doc (state_of (show_img L i s)) = doc s"
    and "moduleClasses (state_of (show_img L i s)) = moduleClasses s"
    and "alerts (state_of (show_img L i s)) = alerts s"
    and "prevented (state_of (show_img L i s)) = prevented s"
    and "unhandled_rejections (state_of (show_img L i s)) = unhandled_rejections s"
    by (simp_all add: eq initializeModules_frame f1)
  show "(''click'', HandleClickOutsideQuillInstance, True)
           \<in> set (window_listeners (state_of (show_img L i s)))"
    by (simp add: eq initializeModules_frame w1)
  show "(''keyup'', CheckImage, False) \<in> set (parent_listeners (state_of (show_img L i s)))"
    by (simp add: eq initializeModules_frame p1)
  show "set (modules (state_of (show_img L i s)))
           \<subseteq> set (modules s) \<union> set (built (moduleClasses s) (next_mod s))"
    using initializeModules_modules_subset [of L s1] by (simp add: eq f1)
  show "Controller \<notin> set (modules s) \<and> Controller \<notin> set (built (moduleClasses s) (next_mod s))
         \<longrightarrow> completed (show_img L i s) = resolvable (moduleClasses s)
           \<and> modules (state_of (show_img L i s)) =
               (if resolvable (moduleClasses s) then built (moduleClasses s) (next_mod s) else [])
           \<and> trace (state_of (show_img L i s)) =
               trace s @ called OnDestroy (modules s)
                 @ map Constructed (module_ids (built (moduleClasses s) (next_mod s)))
                 @ (if resolvable (moduleClasses s)
                    then called OnCreate (built (moduleClasses s) (next_mod s))
                       @ called OnUpdate (built (moduleClasses s) (next_mod s))
                    else [])"
  proof (intro impI)
    assume "Controller \<notin> set (modules s) \<and> Controller \<notin> set (built (moduleClasses s) (next_mod s))"
    then have a: "Controller \<notin> set (modules s1)"
      and b: "Controller \<notin> set (built (moduleClasses s1) (next_mod s1))"
      by (simp_all add: f1)
    from initializeModules_modules [OF a b, of L]
    show "completed (show_img L i s) = resolvable (moduleClasses s)
           \<and> modules (state_of (show_img L i s)) =
               (if resolvable (moduleClasses s) then built (moduleClasses s) (next_mod s) else [])
           \<and> trace (state_of (show_img L i s)) =
               trace s @ called OnDestroy (modules s)
                 @ map Constructed (module_ids (built (moduleClasses s) (next_mod s)))
                 @ (if resolvable (moduleClasses s)
                    then called OnCreate (built (moduleClasses s) (next_mod s))
                       @ called OnUpdate (built (moduleClasses s) (next_mod s))
                    else [])"
      by (simp add: eq f1)
  qed
qed

section \<open>The invariant of the reachable states\<close>

lemma consistent_tracked: "consistent s \<Longrightarrow> overlay_tracked s"
  by (simp add: consistent_def)


lemma cleared_consistent: "cleared s \<Longrightarrow> consistent s"
  by (simp add: cleared_def consistent_def overlay_tracked_def)

lemma hide_consistent:
  assumes "consistent s"
  shows "consistent (state_of (hide s))"
proof -
  from assms have t: "overlay_tracked s" by (rule consistent_tracked)
  have "img s = None \<longrightarrow> modules s = []"
    using assms by (simp add: consistent_def)
  moreover have "well_configured s \<longrightarrow> Controller \<notin> set (modules s)"
    using assms by (simp add: consistent_def)
  ultimately show ?thesis
    using hide_tracked [OF t]
    by (auto simp: consistent_def well_configured_def hide_effect [OF t])
qed

lemma show_img_consistent:
  assumes "consistent s"
  shows "consistent (state_of (show_img L i s))"
proof -
  from assms have t: "overlay_tracked s" by (rule consistent_tracked)
  have m: "well_configured s \<longrightarrow> Controller \<notin> set (modules s)"
    using assms by (simp add: consistent_def)
  have b: "well_configured s \<longrightarrow> Controller \<notin> set (built (moduleClasses s) (next_mod s))"
    by (simp add: well_configured_def built_well_configured)
  have "well_configured (state_of (show_img L i s)) \<longrightarrow>
      Controller \<notin> set (modules (state_of (show_img L i s)))"
    using m b show_img_effect(11) [OF t, of L i]
    by (auto simp: well_configured_def show_img_effect(5) [OF t])
  then show ?thesis
    using show_img_effect(1,2,3) [OF t, of L i]
    by (simp add: consistent_def)
qed

lemma handleClickInside_consistent:
  assumes "consistent s"
  shows "consistent (state_of (handleClickInsideQuillInstance L evt s))"
proof (cases "hide s")
  case (Done s1)
  with hide_consistent [OF assms] have c: "consistent s1" by simp
  show ?thesis
  proof (cases "image_target evt")
    case None
    with Done c show ?thesis
      by (simp add: handleClickInsideQuillInstance_def)
  next
    case (Some i)
    with Done show_img_consistent [OF c, of L i] show ?thesis
      by (simp add: handleClickInsideQuillInstance_def)
  qed
next
  case (Raised e s1)
  with hide_consistent [OF assms] show ?thesis
    by (simp add: handleClickInsideQuillInstance_def)
qed

lemma handleClickOutside_consistent:
  assumes "consistent s"
  shows "consistent (state_of (handleClickOutsideQuillInstance evt s))"
  using assms hide_consistent [OF assms]
  by (simp add: handleClickOutsideQuillInstance_def)

lemma onUpdate_consistent:
  assumes "consistent s"
  shows "consistent (state_of (onUpdate L s))"
proof -
  note r = onUpdate_restyled [of s L]
  show ?thesis
    using assms
    by (simp add: consistent_def well_configured_def restyled_tracked [OF r]
        restyled_overlay_None [OF r] restyled_frame [OF r])
qed

lemma consistent_frame:
  "consistent (s\<lparr> doc := d \<rparr>) = consistent s"
  "consistent (s\<lparr> prevented := p \<rparr>) = consistent s"
  "consistent (s\<lparr> alerts := a \<rparr>) = consistent s"
  "consistent (s\<lparr> unhandled_rejections := u \<rparr>) = consistent s"
  by (simp_all add: consistent_def overlay_tracked_def attached_overlays_def
      well_configured_def)

lemma async_reject_consistent: "consistent (async_reject s) = consistent s"
  by (simp add: async_reject_def consistent_frame)

lemma deleteImage_consistent:
  "consistent s \<Longrightarrow> consistent (state_of (deleteImage i s))"
  by (simp add: deleteImage_def consistent_frame split: option.splits)

lemma delete_then_hide_consistent:
  assumes "consistent s"
  shows "consistent (state_of (andThen (deleteImage i s) hide))"
proof (cases "deleteImage i s")
  case (Done s1)
  with deleteImage_consistent [OF assms, of i] have "consistent s1" by simp
  from hide_consistent [OF this] Done show ?thesis by simp
next
  case (Raised e s1)
  with deleteImage_consistent [OF assms, of i] show ?thesis by simp
qed

lemma state_of_cases:
  "(case r of Done s1 \<Rightarrow> f s1 | Raised e s1 \<Rightarrow> g s1) =
     (if completed r then f (state_of r) else g (state_of r))"
  by (cases r) simp_all

lemma checkImage_sync_consistent:
  assumes "consistent s"
  shows "consistent (snd (checkImage_sync env evt s))"
proof (cases "img s")
  case None
  with assms show ?thesis by (simp add: checkImage_sync_def)
next
  case (Some i)
  define r where "r = (if is_delete_key evt then andThen (deleteImage (img s) s) hide else Done s)"
  have c: "consistent (state_of r)"
    using assms delete_then_hide_consistent [OF assms, of "img s"] by (simp add: r_def)
  show ?thesis
  proof (cases r)
    case (Done s1)
    with c have "consistent s1" by simp
    with Done Some show ?thesis
      unfolding checkImage_sync_def r_def [symmetric]
      by (simp add: Let_def consistent_frame async_reject_consistent split: sum.splits)
  next
    case (Raised e s1)
    with c have "consistent s1" by simp
    with Raised Some show ?thesis
      unfolding checkImage_sync_def r_def [symmetric]
      by (simp add: async_reject_consistent)
  qed
qed

lemma settle_export_consistent:
  "consistent s \<Longrightarrow> consistent (snd (settle_export env s))"
  by (cases env) (simp_all add: settle_export_def consistent_frame)

lemma checkImage_resume_consistent:
  assumes "consistent s"
  shows "consistent (checkImage_resume p s)"
proof (cases p)
  case (Fulfilled imageCopied)
  show ?thesis
  proof (cases imageCopied)
    case True
    from delete_then_hide_consistent [OF assms, of "img s"]
    show ?thesis
      by (cases "andThen (deleteImage (img s) s) hide")
         (simp_all add: checkImage_resume_def Fulfilled True async_reject_consistent)
  next
    case False
    with assms Fulfilled show ?thesis by (simp add: checkImage_resume_def)
  qed
next
  case Rejected
  with assms show ?thesis by (simp add: checkImage_resume_def async_reject_consistent)
next
  case Never
  with assms show ?thesis by (simp add: checkImage_resume_def)
qed

lemma export_settles_consistent:
  assumes "consistent s"
  shows "consistent (export_settles k s)"
proof (cases k)
  case Finished
  with assms show ?thesis by (simp add: export_settles_def)
next
  case (Floating env)
  from settle_export_consistent [OF assms, of env] show ?thesis
    by (cases "settle_export env s"; cases "fst (settle_export env s)")
       (simp_all add: export_settles_def Floating async_reject_consistent)
next
  case (Awaiting env)
  from settle_export_consistent [OF assms, of env] show ?thesis
    by (cases "settle_export env s")
       (simp add: export_settles_def Awaiting checkImage_resume_consistent)
qed

lemma constructor_consistent: "consistent (constructor h opt_modules merged)"
  by (simp add: constructor_def consistent_def overlay_tracked_def attached_overlays_def
      filter_empty_conv)

lemma reachable_consistent: "reachable Ls s \<Longrightarrow> consistent s"
proof (induction rule: reachable.induct)
  case (r_new h opt_modules merged)
  show ?case by (rule constructor_consistent)
next
  case (r_click_inside s L evt)
  then show ?case by (intro handleClickInside_consistent)
next
  case (r_click_outside s evt)
  then show ?case by (intro handleClickOutside_consistent)
next
  case (r_key s env kevt)
  then show ?case by (intro checkImage_sync_consistent)
next
  case (r_settle s k)
  then show ?case by (intro export_settles_consistent)
next
  case (r_update s L)
  then show ?case by (intro onUpdate_consistent)
next
  case (r_show s L i)
  then show ?case by (intro show_img_consistent)
next
  case (r_hide s)
  then show ?case by (intro hide_consistent)
qed

section \<open>The sample page, evaluated\<close>

lemma map_of_set_prop: "map_of (set_prop k v ps) = (map_of ps)(k \<mapsto> v)"
  by (induction ps) auto

lemma px_sample:
  "px sample_layout 84 = ''84px''" "px sample_layout 40 = ''40px''"
  "px sample_layout 200 = ''200px''" "px sample_layout 150 = ''150px''"
  by (simp_all add: px_def sample_layout_def safe_integer_text_def digit_def)

lemma sample_measures:
  "imgRect sample_layout n =
     \<lparr> rect_left = 100, rect_top = 50, rect_width = 200, rect_height = 150 \<rparr>"
  "containerRect sample_layout =
     \<lparr> rect_left = 20, rect_top = 10, rect_width = 800, rect_height = 600 \<rparr>"
  "scrollLeft sample_layout = 5"
  "scrollTop sample_layout = 0"
  by (simp_all add: sample_layout_def)

lemma fresh_page_eq: "fresh_page =
  \<lparr> img = None, overlay = None, modules = [],
    moduleClasses = [Name ''DisplaySize'', Name ''Toolbar'', Name ''Resize''],
    overlayStyles = [(''position'', ''absolute''), (''boxSizing'', ''border-box''),
       (''border'', ''1px dashed #444'')],
    children = [HostChild 0], parent_position = ''relative'',
    parent_tabIndex = None, parent_focused = False,
    parent_listeners = [],
    root_listeners = [(''click'', HandleClickInsideQuillInstance, False)],
    window_listeners = [],
    root_style = [], html_style = [],
    quill_selection = None, doc = [7, 8],
    trace = [], alerts = [], prevented = 0, unhandled_rejections = 0, next_el = 0,
    next_mod = 0, stack_spare = 10000 \<rparr>"
  by (simp add: fresh_page_def constructor_def sample_host_def sample_options_def
      addEventListener_def)


lemma selected_a_eq: "selected_a =
  \<lparr> img = Some \<lparr>nid = 7, tagName = Some [73, 77, 71], in_root = True\<rparr>,
    overlay = Some \<lparr>oid = 0, style =
            [(''position'', ''absolute''), (''boxSizing'', ''border-box''),
             (''border'', ''1px dashed #444''), (''left'', ''84px''),
             (''top'', ''40px''), (''width'', ''200px''),
             (''height'', ''150px'')]\<rparr>,
    modules = [Module \<lparr>mid = 0, mclass = DisplaySize\<rparr>, Module \<lparr>mid = 1, mclass = Toolbar\<rparr>,
       Module \<lparr>mid = 2, mclass = Resize\<rparr>],
    moduleClasses = [Name ''DisplaySize'', Name ''Toolbar'', Name ''Resize''],
    overlayStyles = [(''position'', ''absolute''), (''boxSizing'', ''border-box''),
       (''border'', ''1px dashed #444'')],
    children = [HostChild 0, OverlayDiv 0], parent_position = ''relative'',
    parent_tabIndex = Some ''0'', parent_focused = True,
    parent_listeners = [(''keyup'', CheckImage, False)],
    root_listeners = [(''click'', HandleClickInsideQuillInstance, False)],
    window_listeners = [(''click'', HandleClickOutsideQuillInstance, True)],
    root_style = [(''userSelect'', ''none''), (''mozUserSelect'', ''none''),
       (''webkitUserSelect'', ''none''), (''msUserSelect'', ''none'')],
    html_style = [(''userSelect'', ''none''), (''mozUserSelect'', ''none''),
       (''webkitUserSelect'', ''none''), (''msUserSelect'', ''none'')],
    quill_selection = None, doc = [7, 8],
    trace = [Constructed 0, Constructed 1, Constructed 2, OnCreate 0, OnCreate 1,
       OnCreate 2, OnUpdate 0, OnUpdate 1, OnUpdate 2],
    alerts = [], prevented = 0, unhandled_rejections = 0, next_el = 1,
    next_mod = 3, stack_spare = 10000 \<rparr>"
  unfolding selected_a_def fresh_page_eq
  by (simp add: show_img_def showOverlay_def hideOverlay_def Let_def setUserSelect_def
      addEventListener_def repositionElements_def initializeModules_def removeModules_def
      onUpdate_def image_a_def sample_measures px_sample)


lemma sample_reachable:
  "reachable (UNIV :: int layout set) fresh_page"
  "reachable (UNIV :: int layout set) selected_a"
  "reachable (UNIV :: int layout set) selected_stale"
  "reachable (UNIV :: int layout set) misconfigured_page"
  "reachable (UNIV :: int layout set) selected_misconfigured"
  unfolding fresh_page_def selected_a_def selected_stale_def misconfigured_page_def
    selected_misconfigured_def
  by (intro r_show r_new UNIV_I)+

section \<open>Repositioning\<close>

lemma assign_geometry:
  "map_of (assign st [(''left'', a), (''top'', b), (''width'', c), (''height'', d)]) =
     (map_of st)(''left'' \<mapsto> a, ''top'' \<mapsto> b, ''width'' \<mapsto> c, ''height'' \<mapsto> d)"
  by (simp add: map_of_set_prop)

text \<open>
  Claim C4. A reposition call with an overlay and a selected image present sets the
  overlay's style to \<open>left = imgLeft - containerLeft - 1 + scrollLeft\<close>,
  \<open>top = imgTop - containerTop + scrollTop\<close>, \<open>width = imgWidth\<close>,
  \<open>height = imgHeight\<close>, each followed by \<open>px\<close>, measured on the current
  rectangles of the image and the container and the container's scroll offsets; every
  other style property and the rest of the page stay as they are. The subtraction, the
  addition and the text of a number are those of the numbers the page measures in,
  whatever they are: the statement holds for every type of numbers, so for the
  floating-point numbers of the language with fractional measurements as well.
\<close>

theorem reposition_writes_geometry:
  fixes L :: "'n::{minus,plus,one} layout"
  assumes "overlay s = Some ov" and "img s = Some i"
  shows "\<exists>ov'. repositionElements L s = s\<lparr> overlay := Some ov' \<rparr> \<and> oid ov' = oid ov
     \<and> map_of (style ov') ''left'' =
         Some (number_text L
                (rect_left (imgRect L (nid i)) - rect_left (containerRect L) - 1 + scrollLeft L)
               @ ''px'')
     \<and> map_of (style ov') ''top'' =
         Some (number_text L
                (rect_top (imgRect L (nid i)) - rect_top (containerRect L) + scrollTop L)
               @ ''px'')
     \<and> map_of (style ov') ''width'' =
         Some (number_text L (rect_width (imgRect L (nid i))) @ ''px'')
     \<and> map_of (style ov') ''height'' =
         Some (number_text L (rect_height (imgRect L (nid i))) @ ''px'')
     \<and> (\<forall>k. k \<notin> {''left'', ''top'', ''width'', ''height''} \<longrightarrow>
           map_of (style ov') k = map_of (style ov) k)"
proof -
  let ?geometry =
    "[(''left'', px L (rect_left (imgRect L (nid i)) - rect_left (containerRect L) - 1 + scrollLeft L)),
      (''top'', px L (rect_top (imgRect L (nid i)) - rect_top (containerRect L) + scrollTop L)),
      (''width'', px L (rect_width (imgRect L (nid i)))),
      (''height'', px L (rect_height (imgRect L (nid i))))]"
  let ?ov' = "ov\<lparr> style := assign (style ov) ?geometry \<rparr>"
  have run: "repositionElements L s = s\<lparr> overlay := Some ?ov' \<rparr>"
    using assms by (simp add: repositionElements_def Let_def del: assign.simps)
  show ?thesis
    by (rule exI [of _ ?ov']) (simp add: run assign_geometry px_def del: assign.simps)
qed

text \<open>The worked example, in integers: image rectangle
  \<open>{left: 100, top: 50, width: 200, height: 150}\<close>, container at \<open>{left: 20, top: 10}\<close>,
  \<open>scrollLeft 5\<close>, \<open>scrollTop 0\<close>; the style reads \<open>left: 84px\<close>, \<open>top: 40px\<close>,
  \<open>width: 200px\<close>, \<open>height: 150px\<close>.\<close>

theorem reposition_writes_geometry_witness:
  "overlay selected_a \<noteq> None \<and> img selected_a = Some image_a \<and>
   (\<exists>ov'. repositionElements sample_layout selected_a = selected_a\<lparr> overlay := Some ov' \<rparr>
      \<and> map_of (style ov') ''left'' = Some ''84px''
      \<and> map_of (style ov') ''top'' = Some ''40px''
      \<and> map_of (style ov') ''width'' = Some ''200px''
      \<and> map_of (style ov') ''height'' = Some ''150px'')"
proof -
  have o: "overlay selected_a = Some \<lparr>oid = 0, style =
            [(''position'', ''absolute''), (''boxSizing'', ''border-box''),
             (''border'', ''1px dashed #444''), (''left'', ''84px''),
             (''top'', ''40px''), (''width'', ''200px''),
             (''height'', ''150px'')]\<rparr>"
    and i: "img selected_a = Some image_a"
    by (simp_all add: selected_a_eq image_a_def)
  have nt: "number_text sample_layout 84 = ''84''" "number_text sample_layout 40 = ''40''"
    "number_text sample_layout 200 = ''200''" "number_text sample_layout 150 = ''150''"
    using px_sample by (simp_all add: px_def)
  from reposition_writes_geometry [OF o i, of sample_layout]
  obtain ov' where
    run: "repositionElements sample_layout selected_a = selected_a\<lparr> overlay := Some ov' \<rparr>"
    and l: "map_of (style ov') ''left'' = Some ''84px''"
    and t: "map_of (style ov') ''top'' = Some ''40px''"
    and w: "map_of (style ov') ''width'' = Some ''200px''"
    and h: "map_of (style ov') ''height'' = Some ''150px''"
    by (auto simp: sample_measures nt)
  have "\<exists>ov'. repositionElements sample_layout selected_a = selected_a\<lparr> overlay := Some ov' \<rparr>
      \<and> map_of (style ov') ''left'' = Some ''84px''
      \<and> map_of (style ov') ''top'' = Some ''40px''
      \<and> map_of (style ov') ''width'' = Some ''200px''
      \<and> map_of (style ov') ''height'' = Some ''150px''"
    using run l t w h by (intro exI [of _ ov'] conjI)
  then show ?thesis
    using o i by simp
qed

text \<open>
  Claim C8. With no overlay or no selected image, a reposition call changes nothing on
  the page and returns normally, whatever the geometry of the page is: it does not
  depend on the layout it is given.
\<close>

theorem reposition_without_selection:
  assumes "overlay s = None \<or> img s = None"
  shows "repositionElements L s = s"
  using assms by (auto simp: repositionElements_def split: option.splits)

theorem reposition_without_selection_witness:
  "(overlay fresh_page = None \<or> img fresh_page = None) \<and>
   repositionElements sample_layout fresh_page = fresh_page"
proof -
  have h: "overlay fresh_page = None \<or> img fresh_page = None"
    by (simp add: fresh_page_eq)
  from reposition_without_selection [OF h] h show ?thesis by simp
qed

section \<open>One overlay\<close>

text \<open>
  Claim C10. At most one overlay element is attached at any time, and an attached
  overlay is the one the controller references: in every reachable state the overlay
  elements among the container's children are exactly the referenced overlay, or none
  when none is referenced. In particular a select made while an image is selected
  (the same one or another) ends with one overlay attached, the new one.
\<close>

theorem single_overlay:
  assumes "reachable Ls s"
  shows "attached_overlays s =
           (case overlay s of None \<Rightarrow> [] | Some ov \<Rightarrow> [OverlayDiv (oid ov)])
         \<and> length (attached_overlays s) \<le> 1
         \<and> (\<exists>ov. overlay (state_of (show_img L i s)) = Some ov
                \<and> attached_overlays (state_of (show_img L i s)) = [OverlayDiv (oid ov)])"
proof -
  from assms have t: "overlay_tracked s" by (intro consistent_tracked reachable_consistent)
  then have one: "attached_overlays s =
           (case overlay s of None \<Rightarrow> [] | Some ov \<Rightarrow> [OverlayDiv (oid ov)])"
    by (simp add: overlay_tracked_def)
  then have len: "length (attached_overlays s) \<le> 1"
    by (simp split: option.splits)
  from show_img_effect(2,3) [OF t, of L i]
  have "\<exists>ov. overlay (state_of (show_img L i s)) = Some ov
                \<and> attached_overlays (state_of (show_img L i s)) = [OverlayDiv (oid ov)]"
    by (auto simp: overlay_tracked_def)
  with one len show ?thesis by simp
qed

theorem single_overlay_witness:
  "reachable (UNIV :: int layout set) (state_of (show_img sample_layout image_b selected_a)) \<and>
   length (attached_overlays (state_of (show_img sample_layout image_b selected_a))) \<le> 1 \<and>
   attached_overlays selected_a = [OverlayDiv 0] \<and>
   (\<exists>ov. overlay (state_of (show_img sample_layout image_a selected_a)) = Some ov
        \<and> attached_overlays (state_of (show_img sample_layout image_a selected_a))
            = [OverlayDiv (oid ov)])"
proof -
  note a = sample_reachable(2)
  have b: "reachable (UNIV :: int layout set)
      (state_of (show_img sample_layout image_b selected_a))"
    by (intro r_show a UNIV_I)
  have o: "overlay selected_a = Some \<lparr>oid = 0, style =
            [(''position'', ''absolute''), (''boxSizing'', ''border-box''),
             (''border'', ''1px dashed #444''), (''left'', ''84px''),
             (''top'', ''40px''), (''width'', ''200px''),
             (''height'', ''150px'')]\<rparr>"
    by (simp add: selected_a_eq)
  note after_b = single_overlay [OF b, of sample_layout image_a]
  note after_a = single_overlay [OF a, of sample_layout image_a]
  have l: "length (attached_overlays (state_of (show_img sample_layout image_b selected_a))) \<le> 1"
    using after_b by (elim conjE)
  have one: "attached_overlays selected_a = [OverlayDiv 0]"
    using after_a o by simp
  have again: "\<exists>ov. overlay (state_of (show_img sample_layout image_a selected_a)) = Some ov
        \<and> attached_overlays (state_of (show_img sample_layout image_a selected_a))
            = [OverlayDiv (oid ov)]"
    using after_a by (elim conjE)
  show ?thesis
    using b l one again by (intro conjI)
qed

section \<open>Deselecting\<close>












text \<open>
  Claim C2: after a deselect no listener installed by the selection survives. With
  image 7 selected on the sample page and a click on the \<open>BODY\<close> outside the
  editor, the overlay is removed, the three modules are destroyed, the image reference
  is cleared and the container's \<open>keyup\<close> listener is removed, but the window's
  capturing \<open>click\<close> listener, installed by the same \<^verbatim>\<open>showOverlay\<close>, is still
  registered: \<^verbatim>\<open>hideOverlay\<close> removes the one and not the other.
\<close>

theorem window_listener_survives_deselect:
  "\<not> root_contains (target \<lparr> target = Some outside_node \<rparr>)
   \<and> (''click'', HandleClickOutsideQuillInstance, True) \<in> set (window_listeners selected_a)
   \<and> (''keyup'', CheckImage, False) \<in> set (parent_listeners selected_a)
   \<and> cleared (state_of
        (handleClickOutsideQuillInstance \<lparr> target = Some outside_node \<rparr> selected_a))
   \<and> trace (state_of
        (handleClickOutsideQuillInstance \<lparr> target = Some outside_node \<rparr> selected_a)) =
       trace selected_a @ [OnDestroy 0, OnDestroy 1, OnDestroy 2]
   \<and> (''keyup'', CheckImage, False) \<notin> set (parent_listeners (state_of
        (handleClickOutsideQuillInstance \<lparr> target = Some outside_node \<rparr> selected_a)))
   \<and> (''click'', HandleClickOutsideQuillInstance, True) \<in> set (window_listeners (state_of
        (handleClickOutsideQuillInstance \<lparr> target = Some outside_node \<rparr> selected_a)))"
proof -
  have t: "overlay_tracked selected_a"
    by (rule consistent_tracked [OF reachable_consistent [OF sample_reachable(2)]])
  have f: "modules selected_a = [Module \<lparr>mid = 0, mclass = DisplaySize\<rparr>,
             Module \<lparr>mid = 1, mclass = Toolbar\<rparr>, Module \<lparr>mid = 2, mclass = Resize\<rparr>]"
    "window_listeners selected_a = [(''click'', HandleClickOutsideQuillInstance, True)]"
    "parent_listeners selected_a = [(''keyup'', CheckImage, False)]"
    "overlay selected_a \<noteq> None"
    by (simp_all add: selected_a_eq)
  have run: "handleClickOutsideQuillInstance \<lparr> target = Some outside_node \<rparr> selected_a
      = hide selected_a"
    by (simp add: handleClickOutsideQuillInstance_def root_contains_def outside_node_def)
  have o: "\<not> root_contains (target \<lparr> target = Some outside_node \<rparr>)"
    by (simp add: root_contains_def outside_node_def)
  have k: "(''keyup'', CheckImage, False) \<notin> set (parent_listeners (state_of (hide selected_a)))"
    using hide_effect(14) [OF t] f(4) by simp
  show ?thesis
    unfolding run using o k
    by (simp add: cleared_def hide_effect(2,3,4,5,6,8) [OF t] f(1,2,3))
qed

section \<open>Clicks inside the editor\<close>








lemma selected_a_fields:
  "img selected_a = Some image_a"
  "modules selected_a = [Module \<lparr>mid = 0, mclass = DisplaySize\<rparr>,
     Module \<lparr>mid = 1, mclass = Toolbar\<rparr>, Module \<lparr>mid = 2, mclass = Resize\<rparr>]"
  "moduleClasses selected_a = [Name ''DisplaySize'', Name ''Toolbar'', Name ''Resize'']"
  "next_mod selected_a = 3"
  "trace selected_a = [Constructed 0, Constructed 1, Constructed 2, OnCreate 0, OnCreate 1,
       OnCreate 2, OnUpdate 0, OnUpdate 1, OnUpdate 2]"
  "doc selected_a = [7, 8]"
  "well_configured selected_a"
  "unhandled_rejections selected_a = 0"
  "alerts selected_a = []"
  "prevented selected_a = 0"
  by (simp_all add: selected_a_eq image_a_def well_configured_def)







section \<open>Keys and the clipboard\<close>

lemma chords_exclusive: "is_cut_chord evt \<Longrightarrow> \<not> is_copy_chord evt"
  by (auto simp: is_cut_chord_def is_copy_chord_def)







lemma checkImage_sync_cut:
  assumes "img s = Some i" and "is_cut_chord evt" and "\<not> is_delete_key evt"
  shows "checkImage_sync env evt s = (Awaiting env, s\<lparr> prevented := Suc (prevented s) \<rparr>)"
  using chords_exclusive [OF assms(2)]
  by (simp add: checkImage_sync_def assms copyImageToClipboard_def Let_def)

lemma checkImage_sync_copy:
  assumes "img s = Some i" and "is_copy_chord evt" and "\<not> is_delete_key evt"
  shows "checkImage_sync env evt s = (Floating env, s\<lparr> prevented := Suc (prevented s) \<rparr>)"
  by (simp add: checkImage_sync_def assms copyImageToClipboard_def Let_def)

text \<open>The turn in which the export settles, outcome by outcome.\<close>

lemma export_settles_awaiting:
  "export_settles (Awaiting WriteFulfils) t =
     (case andThen (deleteImage (img t) t) hide of
        Done s1 \<Rightarrow> s1 | Raised e s1 \<Rightarrow> async_reject s1)"
  "export_settles (Awaiting (WriteRejects name message)) t =
     async_reject (t\<lparr> alerts := alerts t @
       [''Error adding image to clipboard: '' @ name @ '' -> '' @ message] \<rparr>)"
  "export_settles (Awaiting ToBlobThrows) t = async_reject t"
  "export_settles (Awaiting CallbackThrows) t = async_reject t"
  by (simp_all add: export_settles_def settle_export_def checkImage_resume_def
      async_reject_def)

lemma export_settles_floating:
  "export_settles (Floating WriteFulfils) t = t"
  "export_settles (Floating (WriteRejects name message)) t =
     async_reject (t\<lparr> alerts := alerts t @
       [''Error adding image to clipboard: '' @ name @ '' -> '' @ message] \<rparr>)"
  "export_settles (Floating ToBlobThrows) t = async_reject t"
  "export_settles (Floating CallbackThrows) t = async_reject t"
  by (simp_all add: export_settles_def settle_export_def async_reject_def)






lemma sample_keys:
  "is_delete_key key_delete" "\<not> is_delete_key key_cut" "\<not> is_delete_key key_copy"
  "is_cut_chord key_cut" "is_copy_chord key_copy"
  by (simp_all add: is_delete_key_def is_cut_chord_def is_copy_chord_def key_delete_def
      key_cut_def key_copy_def)









text \<open>
  Claim C5: the export yields a success or failure outcome to its caller, shows a
  diagnostic on failure, and neither the copy path nor the cut path can end in an
  unhandled rejection. On the sample page with image 7 selected and a clipboard write
  that is rejected with \<open>NotAllowedError\<close>, the export shows its alert and rejects
  its promise: on the copy path nothing handles that promise, and on the cut path the
  \<^verbatim>\<open>await\<close> throws inside the handler, whose own promise nothing handles, although the
  code that follows tests the outcome \<^verbatim>\<open>imageCopied\<close> as a truth value. When
  \<^verbatim>\<open>toBlob\<close> itself throws, the promise is rejected with no alert shown; when the
  \<^verbatim>\<open>toBlob\<close> callback throws, the promise never settles, no alert is shown, and the
  callback's own rejection is unhandled.
\<close>

theorem export_rejection_unhandled:
  "img selected_a = Some image_a \<and> unhandled_rejections selected_a = 0
   \<and> alerts selected_a = []
   \<and> fst (checkImage_sync (WriteRejects ''NotAllowedError'' ''denied'') key_copy selected_a)
       = Floating (WriteRejects ''NotAllowedError'' ''denied'')
   \<and> alerts (export_settles (Floating (WriteRejects ''NotAllowedError'' ''denied''))
        (snd (checkImage_sync (WriteRejects ''NotAllowedError'' ''denied'') key_copy
           selected_a))) = [''Error adding image to clipboard: NotAllowedError -> denied'']
   \<and> unhandled_rejections (export_settles (Floating (WriteRejects ''NotAllowedError'' ''denied''))
        (snd (checkImage_sync (WriteRejects ''NotAllowedError'' ''denied'') key_copy
           selected_a))) = 1
   \<and> fst (checkImage_sync (WriteRejects ''NotAllowedError'' ''denied'') key_cut selected_a)
       = Awaiting (WriteRejects ''NotAllowedError'' ''denied'')
   \<and> alerts (export_settles (Awaiting (WriteRejects ''NotAllowedError'' ''denied''))
        (snd (checkImage_sync (WriteRejects ''NotAllowedError'' ''denied'') key_cut
           selected_a))) = [''Error adding image to clipboard: NotAllowedError -> denied'']
   \<and> unhandled_rejections (export_settles (Awaiting (WriteRejects ''NotAllowedError'' ''denied''))
        (snd (checkImage_sync (WriteRejects ''NotAllowedError'' ''denied'') key_cut
           selected_a))) = 1
   \<and> fst (settle_export ToBlobThrows selected_a) = Rejected
   \<and> alerts (export_settles (Awaiting ToBlobThrows)
        (snd (checkImage_sync ToBlobThrows key_cut selected_a))) = []
   \<and> unhandled_rejections (export_settles (Awaiting ToBlobThrows)
        (snd (checkImage_sync ToBlobThrows key_cut selected_a))) = 1
   \<and> unhandled_rejections (export_settles (Floating ToBlobThrows)
        (snd (checkImage_sync ToBlobThrows key_copy selected_a))) = 1
   \<and> fst (settle_export CallbackThrows selected_a) = Never
   \<and> alerts (export_settles (Awaiting CallbackThrows)
        (snd (checkImage_sync CallbackThrows key_cut selected_a))) = []
   \<and> unhandled_rejections (export_settles (Awaiting CallbackThrows)
        (snd (checkImage_sync CallbackThrows key_cut selected_a))) = 1
   \<and> img (export_settles (Awaiting CallbackThrows)
        (snd (checkImage_sync CallbackThrows key_cut selected_a))) = Some image_a"
  by (simp add: checkImage_sync_cut [OF selected_a_fields(1) sample_keys(4,2)]
      checkImage_sync_copy [OF selected_a_fields(1) sample_keys(5,3)]
      export_settles_awaiting export_settles_floating async_reject_def settle_export_def
      selected_a_fields(1,8,9))

end
